theory Spec2Isabelle
  imports Main
begin

section \<open>Strings and the id syntax\<close>

text \<open>
  A JavaScript string is a sequence of UTF-16 code units, modelled as a list of naturals.
  Literals of the source are written with \<open>js\<close>.
\<close>

type_synonym js_string = "nat list"

definition js :: "string \<Rightarrow> js_string" where
  "js s = map of_char s"

text \<open>\<^verbatim>\<open>String.prototype.split(',')\<close>: the pieces between the commas, empty pieces kept.\<close>

fun split_comma :: "js_string \<Rightarrow> js_string list" where
  "split_comma [] = [[]]"
| "split_comma (c # cs) =
     (if c = 44 then [] # split_comma cs
      else (case split_comma cs of
              [] \<Rightarrow> [[c]]
            | t # ts \<Rightarrow> (c # t) # ts))"

text \<open>
  \<^verbatim>\<open>String.prototype.trim\<close> strips the code units of WhiteSpace and LineTerminator
  from both ends.
\<close>

definition is_ws :: "nat \<Rightarrow> bool" where
  "is_ws c = (c = 9 \<or> c = 10 \<or> c = 11 \<or> c = 12 \<or> c = 13 \<or> c = 32 \<or> c = 160
     \<or> c = 5760 \<or> (8192 \<le> c \<and> c \<le> 8202) \<or> c = 8232 \<or> c = 8233 \<or> c = 8239
     \<or> c = 8287 \<or> c = 12288 \<or> c = 65279)"

definition trim :: "js_string \<Rightarrow> js_string" where
  "trim s = rev (dropWhile is_ws (rev (dropWhile is_ws s)))"

text \<open>\<^verbatim>\<open>/^\d+$/.test(s)\<close>: one or more code units, each of them in \<open>0..9\<close>.\<close>

definition is_digit :: "nat \<Rightarrow> bool" where
  "is_digit c = (48 \<le> c \<and> c \<le> 57)"

definition is_digits :: "js_string \<Rightarrow> bool" where
  "is_digits s = (s \<noteq> [] \<and> list_all is_digit s)"

text \<open>
  A number of the program is an IEEE double. The values that a whitelist holds are the
  doubles with an integer value (\<open>Number n\<close>), \<open>Infinity\<close>, and \<open>null\<close>, which is what
  the JSON text of the file has in the place of a number that is not finite.
\<close>

datatype js_value = Number int | Infinity | Null

text \<open>
  The double nearest to a non-negative integer: 53 significant bits, a tie goes to the
  even significand, and a result of \<open>2^1024\<close> or more is \<open>Infinity\<close>. With \<open>e\<close> the number
  of bits beyond the 53, \<open>q\<close> is the significand before rounding and \<open>r\<close> what is cut off.
\<close>

definition to_double :: "int \<Rightarrow> js_value" where
  "to_double n =
     (if 2 ^ 1024 \<le> n then Infinity
      else (let e = length (takeWhile (\<lambda>k. 2 ^ k \<le> n) [53..<1024]);
                q = n div 2 ^ e;
                r = n mod 2 ^ e;
                q' = (if 2 ^ e < 2 * r \<or> (2 * r = 2 ^ e \<and> odd q) then q + 1 else q);
                m = q' * 2 ^ e
            in if 2 ^ 1024 \<le> m then Infinity else Number m))"

definition decimal_value :: "js_string \<Rightarrow> int" where
  "decimal_value s = foldl (\<lambda>acc c. 10 * acc + int (c - 48)) 0 s"

text \<open>
  \<^verbatim>\<open>parseInt\<close> on a string of decimal digits: the double nearest to the number that the
  digits denote. So \<open>9007199254740993\<close> is read as \<open>9007199254740992\<close>, and 309 nines as
  \<open>Infinity\<close>.
\<close>

definition parseInt :: "js_string \<Rightarrow> js_value" where
  "parseInt s = to_double (decimal_value s)"

text \<open>
  \<^verbatim>\<open>userIds.split(',').map(id => id.trim()).filter(id => /^\d+$/.test(id)).map(id => parseInt(id))\<close>
\<close>

definition parse_ids :: "js_string \<Rightarrow> js_value list" where
  "parse_ids userIds = map parseInt (filter is_digits (map trim (split_comma userIds)))"

text \<open>\<^verbatim>\<open>getString('reason') || fallback\<close>: null and the empty string are falsy.\<close>

definition reason_or :: "js_string option \<Rightarrow> string \<Rightarrow> js_string" where
  "reason_or r fallback =
     (case r of None \<Rightarrow> js fallback | Some s \<Rightarrow> if s = [] then js fallback else s)"

section \<open>Arrays\<close>

text \<open>
  \<^verbatim>\<open>Array.prototype.includes\<close>, \<^verbatim>\<open>indexOf\<close> and \<^verbatim>\<open>splice(start, deleteCount)\<close>. On the
  values of a whitelist (no NaN among them) the comparisons of \<open>includes\<close> and of
  \<open>indexOf\<close> are both equality.
\<close>

definition array_includes :: "'a list \<Rightarrow> 'a \<Rightarrow> bool" where
  "array_includes xs x = (x \<in> set xs)"

fun indexOf :: "'a list \<Rightarrow> 'a \<Rightarrow> int" where
  "indexOf [] x = - 1"
| "indexOf (y # ys) x =
     (if y = x then 0
      else (let i = indexOf ys x in if i = - 1 then - 1 else i + 1))"

definition array_splice :: "'a list \<Rightarrow> int \<Rightarrow> int \<Rightarrow> 'a list" where
  "array_splice xs start deleteCount =
     (let len = int (length xs);
          s = (if start < 0 then max (len + start) 0 else min start len);
          d = min (max deleteCount 0) (len - s)
      in take (nat s) xs @ drop (nat (s + d)) xs)"

section \<open>The remote store\<close>

text \<open>
  The persisted document: the field \<open>whitelist\<close> and the other fields, which pass through.
\<close>

record document =
  whitelist :: "js_value list"
  other_fields :: "(js_string \<times> js_string) list"

text \<open>
  The revision token of a file is the hash of its content; the model takes the hash to be
  free of collisions, so a token is the content it names.
\<close>

datatype revision = Rev document

text \<open>
  \<^verbatim>\<open>JSON.stringify\<close> of a document, as the \<^verbatim>\<open>JSON.parse\<close> of a later read gives it
  back: \<open>Infinity\<close> is written as \<open>null\<close>, every other value is read back as it was.
\<close>

definition JSON_stringify :: "document \<Rightarrow> document" where
  "JSON_stringify d = d\<lparr>whitelist := map (\<lambda>v. if v = Infinity then Null else v) (whitelist d)\<rparr>"

datatype store_error = RemoteUnavailable | NotFound | DecodeError | RevisionConflict

text \<open>The commit messages of the source, by template.\<close>

datatype commit_msg =
    MsgAdded js_string js_string
  | MsgRemoved js_string js_string
  | MsgBulkAdded nat js_string
  | MsgBulkRemoved nat js_string
  | MsgCleared nat

datatype call = GetContent | CreateOrUpdate commit_msg document revision

fun is_commit :: "call \<Rightarrow> bool" where
  "is_commit GetContent = False"
| "is_commit (CreateOrUpdate m d r) = True"

section \<open>The process state\<close>

text \<open>
  \<open>whitelistCache\<close> is null or a reference to an object \<open>{data, sha}\<close>. The handlers
  change the array behind \<open>data.whitelist\<close> of the object they were handed, so objects live
  in a heap and are named by their address. \<open>remote_doc\<close> is the content of the file in the
  store, \<open>faults\<close> the failures the next store calls will meet (one entry per call, \<open>None\<close>
  or an exhausted list for a call that goes through), \<open>calls\<close> the store calls made so far.
\<close>

record cache_obj =
  data :: document
  sha :: revision

record world =
  whitelistCache :: "nat option"
  lastFetch :: int
  heap :: "nat \<Rightarrow> cache_obj"
  next_addr :: nat
  remote_doc :: document
  faults :: "store_error option list"
  calls :: "call list"

definition CACHE_DURATION :: int where
  "CACHE_DURATION = 60000"

definition commits :: "world \<Rightarrow> call list" where
  "commits w = filter is_commit (calls w)"

text \<open>
  Modelled from the spec: the store behind \<^verbatim>\<open>octokit.repos.getContent\<close>, which is
  not part of the repository (fetchDocument of the Remote Store Client). The call and the
  decoding of the content give the document and its token, or a failure.
\<close>

definition getContent :: "world \<Rightarrow> (store_error + document \<times> revision) \<times> world" where
  "getContent w =
     (let w' = w\<lparr>faults := tl (faults w), calls := calls w @ [GetContent]\<rparr>
      in case faults w of
           Some e # fs \<Rightarrow> (Inl e, w')
         | _ \<Rightarrow> (Inr (remote_doc w, Rev (remote_doc w)), w'))"

text \<open>
  Modelled from the spec: the store behind \<^verbatim>\<open>octokit.repos.createOrUpdateFileContents\<close>,
  which is not part of the repository (commitDocument of the Remote Store Client). The store
  takes the content only when the token is the one of the file it holds, and fails with a
  revision conflict otherwise.
\<close>

definition createOrUpdateFileContents ::
  "commit_msg \<Rightarrow> document \<Rightarrow> revision \<Rightarrow> world \<Rightarrow> (store_error + unit) \<times> world" where
  "createOrUpdateFileContents message content sha' w =
     (let w' = w\<lparr>faults := tl (faults w),
                 calls := calls w @ [CreateOrUpdate message content sha']\<rparr>
      in case faults w of
           Some e # fs \<Rightarrow> (Inl e, w')
         | _ \<Rightarrow> if sha' = Rev (remote_doc w) then (Inr (), w'\<lparr>remote_doc := content\<rparr>)
                else (Inl RevisionConflict, w'))"

section \<open>The cache\<close>

datatype js_error = Error string

text \<open>\<open>now\<close> is the reading of \<^verbatim>\<open>Date.now()\<close> at the call.\<close>

definition fetchWhitelist :: "int \<Rightarrow> world \<Rightarrow> (js_error + nat) \<times> world" where
  "fetchWhitelist now w =
     (if whitelistCache w \<noteq> None \<and> now - lastFetch w < CACHE_DURATION
      then (Inr (the (whitelistCache w)), w)
      else (case getContent w of
              (Inl e, w1) \<Rightarrow> (Inl (Error ''Failed to fetch whitelist from GitHub''), w1)
            | (Inr (wl, s), w1) \<Rightarrow>
                (let a = next_addr w1
                 in (Inr a, w1\<lparr>heap := (heap w1)(a := \<lparr>data = wl, sha = s\<rparr>),
                                next_addr := Suc a,
                                whitelistCache := Some a,
                                lastFetch := now\<rparr>))))"

text \<open>
  \<open>newWhitelist\<close> is the address of the object whose \<open>data\<close> the caller passes: the
  argument is a reference, read when the content is serialised, after the fetch.
\<close>

definition updateWhitelist ::
  "int \<Rightarrow> nat \<Rightarrow> commit_msg \<Rightarrow> world \<Rightarrow> (js_error + bool) \<times> world" where
  "updateWhitelist now newWhitelist message w =
     (case fetchWhitelist now w of
        (Inl e, w1) \<Rightarrow> (Inl (Error ''Failed to update whitelist on GitHub''), w1)
      | (Inr currentData, w1) \<Rightarrow>
          (case createOrUpdateFileContents message (JSON_stringify (data (heap w1 newWhitelist)))
                  (sha (heap w1 currentData)) w1 of
             (Inl e, w2) \<Rightarrow> (Inl (Error ''Failed to update whitelist on GitHub''), w2)
           | (Inr u, w2) \<Rightarrow> (Inr True, w2\<lparr>whitelistCache := None\<rparr>)))"

text \<open>A write to \<open>data.whitelist\<close> of the object at an address, seen through every alias.\<close>

definition set_whitelist :: "nat \<Rightarrow> js_value list \<Rightarrow> world \<Rightarrow> world" where
  "set_whitelist a xs w =
     w\<lparr>heap := (heap w)(a := (heap w a)\<lparr>data := (data (heap w a))\<lparr>whitelist := xs\<rparr>\<rparr>)\<rparr>"

definition get_whitelist :: "nat \<Rightarrow> world \<Rightarrow> js_value list" where
  "get_whitelist a w = whitelist (data (heap w a))"

section \<open>The command handlers\<close>

text \<open>
  What a handler tells the user. \<open>Unhandled\<close> is a rejection of the collector's callback,
  which reaches the console only. The replies themselves and the audit log are calls of the
  chat library, which is not part of the repository; they are taken to go through.
\<close>

datatype outcome =
    NoPermission
  | InvalidUserId
  | AlreadyWhitelisted js_string
  | UserAdded js_string js_string
  | NotInWhitelist js_string
  | UserRemoved js_string js_string
  | CheckResult js_string bool
  | NoValidUserIds
  | BulkAddResults "js_value list" "js_value list"
  | BulkRemoveResults "js_value list" "js_value list"
  | ClearCancelled
  | WhitelistCleared nat
  | ErrorReply string
  | Unhandled string

fun message_of :: "js_error \<Rightarrow> string" where
  "message_of (Error m) = m"

text \<open>Subcommand \<open>add\<close>. \<open>t1\<close> and \<open>t2\<close> are the clock readings of its two cache reads.\<close>

definition cmd_add ::
  "int \<Rightarrow> int \<Rightarrow> js_string \<Rightarrow> js_string option \<Rightarrow> world \<Rightarrow> outcome \<times> world" where
  "cmd_add t1 t2 userId reason0 w =
     (let reason = reason_or reason0 ''No reason provided''
      in if \<not> is_digits userId then (InvalidUserId, w)
         else (case fetchWhitelist t1 w of
                 (Inl e, w1) \<Rightarrow> (ErrorReply (message_of e), w1)
               | (Inr a, w1) \<Rightarrow>
                   if array_includes (get_whitelist a w1) (parseInt userId)
                   then (AlreadyWhitelisted userId, w1)
                   else (let w2 = set_whitelist a (get_whitelist a w1 @ [parseInt userId]) w1
                         in case updateWhitelist t2 a (MsgAdded userId reason) w2 of
                              (Inl e, w3) \<Rightarrow> (ErrorReply (message_of e), w3)
                            | (Inr u, w3) \<Rightarrow> (UserAdded userId reason, w3))))"

text \<open>Subcommand \<open>remove\<close>.\<close>

definition cmd_remove ::
  "int \<Rightarrow> int \<Rightarrow> js_string \<Rightarrow> js_string option \<Rightarrow> world \<Rightarrow> outcome \<times> world" where
  "cmd_remove t1 t2 userId reason0 w =
     (let reason = reason_or reason0 ''No reason provided''
      in if \<not> is_digits userId then (InvalidUserId, w)
         else (case fetchWhitelist t1 w of
                 (Inl e, w1) \<Rightarrow> (ErrorReply (message_of e), w1)
               | (Inr a, w1) \<Rightarrow>
                   (let userIdInt = parseInt userId;
                        index = indexOf (get_whitelist a w1) userIdInt
                    in if index = - 1 then (NotInWhitelist userId, w1)
                       else (let w2 = set_whitelist a (array_splice (get_whitelist a w1) index 1) w1
                             in case updateWhitelist t2 a (MsgRemoved userId reason) w2 of
                                  (Inl e, w3) \<Rightarrow> (ErrorReply (message_of e), w3)
                                | (Inr u, w3) \<Rightarrow> (UserRemoved userId reason, w3)))))"

text \<open>Subcommand \<open>check\<close>.\<close>

definition cmd_check :: "int \<Rightarrow> js_string \<Rightarrow> world \<Rightarrow> outcome \<times> world" where
  "cmd_check t1 userId w =
     (if \<not> is_digits userId then (InvalidUserId, w)
      else (case fetchWhitelist t1 w of
              (Inl e, w1) \<Rightarrow> (ErrorReply (message_of e), w1)
            | (Inr a, w1) \<Rightarrow>
                (CheckResult userId (array_includes (get_whitelist a w1) (parseInt userId)), w1)))"

text \<open>
  The loop of \<open>bulk-add\<close> over \<open>idsToAdd\<close>; its state is the array and the two lists
  \<open>alreadyWhitelisted\<close> and \<open>newlyAdded\<close>.
\<close>

fun bulk_add_loop ::
  "js_value list \<Rightarrow> js_value list \<times> js_value list \<times> js_value list
     \<Rightarrow> js_value list \<times> js_value list \<times> js_value list" where
  "bulk_add_loop [] st = st"
| "bulk_add_loop (i # ids) (wl, alreadyWhitelisted, newlyAdded) =
     (if array_includes wl i then bulk_add_loop ids (wl, alreadyWhitelisted @ [i], newlyAdded)
      else bulk_add_loop ids (wl @ [i], alreadyWhitelisted, newlyAdded @ [i]))"

definition cmd_bulk_add ::
  "int \<Rightarrow> int \<Rightarrow> js_string \<Rightarrow> js_string option \<Rightarrow> world \<Rightarrow> outcome \<times> world" where
  "cmd_bulk_add t1 t2 userIds reason0 w =
     (let reason = reason_or reason0 ''Bulk add - No reason provided'';
          idsToAdd = parse_ids userIds
      in if length idsToAdd = 0 then (NoValidUserIds, w)
         else (case fetchWhitelist t1 w of
                 (Inl e, w1) \<Rightarrow> (ErrorReply (message_of e), w1)
               | (Inr a, w1) \<Rightarrow>
                   (case bulk_add_loop idsToAdd (get_whitelist a w1, [], []) of
                      (wl, alreadyWhitelisted, newlyAdded) \<Rightarrow>
                        (let w2 = set_whitelist a wl w1
                         in if length newlyAdded > 0
                            then (case updateWhitelist t2 a
                                         (MsgBulkAdded (length newlyAdded) reason) w2 of
                                    (Inl e, w3) \<Rightarrow> (ErrorReply (message_of e), w3)
                                  | (Inr u, w3) \<Rightarrow>
                                      (BulkAddResults newlyAdded alreadyWhitelisted, w3))
                            else (BulkAddResults newlyAdded alreadyWhitelisted, w2)))))"

text \<open>The loop of \<open>bulk-remove\<close>, with the lists \<open>notInWhitelist\<close> and \<open>removed\<close>.\<close>

fun bulk_remove_loop ::
  "js_value list \<Rightarrow> js_value list \<times> js_value list \<times> js_value list
     \<Rightarrow> js_value list \<times> js_value list \<times> js_value list" where
  "bulk_remove_loop [] st = st"
| "bulk_remove_loop (i # ids) (wl, notInWhitelist, removed) =
     (let index = indexOf wl i
      in if index = - 1 then bulk_remove_loop ids (wl, notInWhitelist @ [i], removed)
         else bulk_remove_loop ids (array_splice wl index 1, notInWhitelist, removed @ [i]))"

definition cmd_bulk_remove ::
  "int \<Rightarrow> int \<Rightarrow> js_string \<Rightarrow> js_string option \<Rightarrow> world \<Rightarrow> outcome \<times> world" where
  "cmd_bulk_remove t1 t2 userIds reason0 w =
     (let reason = reason_or reason0 ''Bulk remove - No reason provided'';
          idsToRemove = parse_ids userIds
      in if length idsToRemove = 0 then (NoValidUserIds, w)
         else (case fetchWhitelist t1 w of
                 (Inl e, w1) \<Rightarrow> (ErrorReply (message_of e), w1)
               | (Inr a, w1) \<Rightarrow>
                   (case bulk_remove_loop idsToRemove (get_whitelist a w1, [], []) of
                      (wl, notInWhitelist, removed) \<Rightarrow>
                        (let w2 = set_whitelist a wl w1
                         in if length removed > 0
                            then (case updateWhitelist t2 a
                                         (MsgBulkRemoved (length removed) reason) w2 of
                                    (Inl e, w3) \<Rightarrow> (ErrorReply (message_of e), w3)
                                  | (Inr u, w3) \<Rightarrow>
                                      (BulkRemoveResults removed notInWhitelist, w3))
                            else (BulkRemoveResults removed notInWhitelist, w2)))))"

text \<open>
  Subcommand \<open>clear\<close>. A message of the channel has an author, a content and the time, in
  milliseconds after the collector was created, at which it arrives.
\<close>

record message =
  author_id :: js_string
  content :: js_string
  arrival :: int

definition clear_filter :: "js_string \<Rightarrow> message \<Rightarrow> bool" where
  "clear_filter user_id m = (author_id m = user_id \<and> content m = js ''CONFIRM'')"

text \<open>
  Modelled from the spec: the message collector of the chat library
  (\<^verbatim>\<open>createMessageCollector({ filter, time, max: 1 })\<close>), which is not part of the
  repository: a bounded wait for one matching event. It hands over the first message that
  arrives before \<open>time\<close> has passed and satisfies the filter, or none.
\<close>

definition createMessageCollector ::
  "(message \<Rightarrow> bool) \<Rightarrow> int \<Rightarrow> message list \<Rightarrow> message option" where
  "createMessageCollector f time msgs = find (\<lambda>m. arrival m < time \<and> f m) msgs"

text \<open>The callback of \<open>collect\<close>; nothing catches what it throws.\<close>

definition clear_collect :: "int \<Rightarrow> int \<Rightarrow> world \<Rightarrow> outcome \<times> world" where
  "clear_collect t1 t2 w =
     (case fetchWhitelist t1 w of
        (Inl e, w1) \<Rightarrow> (Unhandled (message_of e), w1)
      | (Inr a, w1) \<Rightarrow>
          (let oldCount = length (get_whitelist a w1);
               w2 = set_whitelist a [] w1
           in case updateWhitelist t2 a (MsgCleared oldCount) w2 of
                (Inl e, w3) \<Rightarrow> (Unhandled (message_of e), w3)
              | (Inr u, w3) \<Rightarrow> (WhitelistCleared oldCount, w3)))"

definition cmd_clear ::
  "int \<Rightarrow> int \<Rightarrow> js_string \<Rightarrow> message list \<Rightarrow> world \<Rightarrow> outcome \<times> world" where
  "cmd_clear t1 t2 user_id msgs w =
     (case createMessageCollector (clear_filter user_id) 30000 msgs of
        Some m \<Rightarrow> clear_collect t1 t2 w
      | None \<Rightarrow> (ClearCancelled, w))"

text \<open>
  The dispatch on the subcommand, behind the role check. The read-only subcommands
  \<open>list\<close>, \<open>count\<close> and \<open>backup\<close> render the cached document and are left out.
\<close>

datatype command =
    Add js_string "js_string option"
  | Remove js_string "js_string option"
  | Check js_string
  | BulkAdd js_string "js_string option"
  | BulkRemove js_string "js_string option"
  | Clear js_string "message list"

fun handle :: "bool \<Rightarrow> int \<Rightarrow> int \<Rightarrow> command \<Rightarrow> world \<Rightarrow> outcome \<times> world" where
  "handle isAdmin t1 t2 c w =
     (if \<not> isAdmin then (NoPermission, w)
      else (case c of
              Add userId reason \<Rightarrow> cmd_add t1 t2 userId reason w
            | Remove userId reason \<Rightarrow> cmd_remove t1 t2 userId reason w
            | Check userId \<Rightarrow> cmd_check t1 userId w
            | BulkAdd userIds reason \<Rightarrow> cmd_bulk_add t1 t2 userIds reason w
            | BulkRemove userIds reason \<Rightarrow> cmd_bulk_remove t1 t2 userIds reason w
            | Clear user_id msgs \<Rightarrow> cmd_clear t1 t2 user_id msgs w))"

section \<open>Reference states and auxiliary notions\<close>

text \<open>
  A document that holds the given integers and no other field, and the state of a process
  that has just started.
\<close>

definition doc :: "int list \<Rightarrow> document" where
  "doc xs = \<lparr>whitelist = map Number xs, other_fields = []\<rparr>"

definition initial :: "int list \<Rightarrow> world" where
  "initial xs = \<lparr>whitelistCache = None, lastFetch = 0,
     heap = (\<lambda>a. \<lparr>data = doc [], sha = Rev (doc [])\<rparr>), next_addr = 0,
     remote_doc = doc xs, faults = [], calls = []\<rparr>"

text \<open>A read at \<open>now\<close> goes to the store: no entry, or an entry fetched a TTL or more ago.\<close>

definition miss :: "int \<Rightarrow> world \<Rightarrow> bool" where
  "miss now w = (whitelistCache w = None \<or> CACHE_DURATION \<le> now - lastFetch w)"

text \<open>The state after one read at time 0 of the list \<open>[1]\<close>.\<close>

definition ttl_example :: world where
  "ttl_example = snd (fetchWhitelist 0 (initial [1]))"

text \<open>That state after another writer has changed the file, and with the store down.\<close>

definition stale_example :: world where
  "stale_example = (snd (fetchWhitelist 0 (initial [1])))\<lparr>remote_doc := doc [1, 9]\<rparr>"

definition down_example :: world where
  "down_example = (snd (fetchWhitelist 0 (initial [1])))\<lparr>faults := [Some RemoteUnavailable]\<rparr>"

definition missing_example :: world where
  "missing_example = (initial [1])\<lparr>faults := [Some NotFound]\<rparr>"

text \<open>A message that confirms the clear of a user: theirs, \<open>CONFIRM\<close>, inside the window.\<close>

definition is_confirmation :: "js_string \<Rightarrow> message \<Rightarrow> bool" where
  "is_confirmation user_id m =
     (author_id m = user_id \<and> content m = js ''CONFIRM'' \<and> arrival m < 30000)"

definition late_confirm :: message where
  "late_confirm = \<lparr>author_id = js ''7'', content = js ''CONFIRM'', arrival = 30000\<rparr>"

definition other_confirm :: message where
  "other_confirm = \<lparr>author_id = js ''8'', content = js ''CONFIRM'', arrival = 100\<rparr>"

definition good_confirm :: message where
  "good_confirm = \<lparr>author_id = js ''7'', content = js ''CONFIRM'', arrival = 29999\<rparr>"

text \<open>
  The Mutation Engine in the words of the specification. Add: an id that is present is
  skipped, another one is appended and applied. BulkAdd: Add for each id in the given
  order, on the list as the earlier ids left it, collecting the applied and the skipped.
  Each result is the new list, the applied ids and the skipped ids.
\<close>

definition spec_Add :: "'a list \<Rightarrow> 'a \<Rightarrow> 'a list \<times> 'a list \<times> 'a list" where
  "spec_Add wl i = (if i \<in> set wl then (wl, [], [i]) else (wl @ [i], [i], []))"

definition spec_BulkAdd_step ::
  "'a list \<times> 'a list \<times> 'a list \<Rightarrow> 'a \<Rightarrow> 'a list \<times> 'a list \<times> 'a list" where
  "spec_BulkAdd_step st i =
     (case st of (wl, applied, skipped) \<Rightarrow>
        (case spec_Add wl i of (wl', ap, sk) \<Rightarrow> (wl', applied @ ap, skipped @ sk)))"

definition spec_BulkAdd :: "'a list \<Rightarrow> 'a list \<Rightarrow> 'a list \<times> 'a list \<times> 'a list" where
  "spec_BulkAdd wl ids = foldl spec_BulkAdd_step (wl, [], []) ids"

text \<open>
  The summary of an outcome: how many changes were applied (\<open>None\<close> for a rejection or
  a failure) and which ids were skipped; the ids a command asks for.
\<close>

fun applied_count :: "outcome \<Rightarrow> nat option" where
  "applied_count (UserAdded u r) = Some 1"
| "applied_count (AlreadyWhitelisted u) = Some 0"
| "applied_count (UserRemoved u r) = Some 1"
| "applied_count (NotInWhitelist u) = Some 0"
| "applied_count (BulkAddResults newlyAdded alreadyWhitelisted) = Some (length newlyAdded)"
| "applied_count (BulkRemoveResults removed notInWhitelist) = Some (length removed)"
| "applied_count (WhitelistCleared n) = Some n"
| "applied_count _ = None"

fun skipped_ids :: "outcome \<Rightarrow> js_value list" where
  "skipped_ids (AlreadyWhitelisted u) = [parseInt u]"
| "skipped_ids (NotInWhitelist u) = [parseInt u]"
| "skipped_ids (BulkAddResults newlyAdded alreadyWhitelisted) = alreadyWhitelisted"
| "skipped_ids (BulkRemoveResults removed notInWhitelist) = notInWhitelist"
| "skipped_ids _ = []"

fun requested_ids :: "command \<Rightarrow> js_value list" where
  "requested_ids (Add u r) = [parseInt u]"
| "requested_ids (Remove u r) = [parseInt u]"
| "requested_ids (BulkAdd s r) = parse_ids s"
| "requested_ids (BulkRemove s r) = parse_ids s"
| "requested_ids _ = []"

fun is_clear :: "command \<Rightarrow> bool" where
  "is_clear (Clear u ms) = True"
| "is_clear _ = False"

text \<open>The state after one read at time 0 of the list \<open>[1, 2, 3]\<close>.\<close>

definition listed_example :: world where
  "listed_example = snd (fetchWhitelist 0 (initial [1, 2, 3]))"

text \<open>
  The state after one read at time 0 of the list \<open>[9007199254740992]\<close>, which is
  \<open>[2^53]\<close>.
\<close>

definition round_example :: world where
  "round_example = snd (fetchWhitelist 0 (initial [9007199254740992]))"

text \<open>The state after one read at time 0 of a list that holds 5 twice.\<close>

definition dup_example :: world where
  "dup_example = snd (fetchWhitelist 0 (initial [5, 7, 5]))"

text \<open>
  An id of 309 nines, and the state left by \<open>add\<close> of it on an empty list. The state
  left by \<open>add 2\<close> on the list \<open>[1]\<close> when the commit fails, and the state left by
  another \<open>add 2\<close> after that.
\<close>

definition huge_id :: js_string where
  "huge_id = replicate 309 57"

definition once_huge :: world where
  "once_huge = snd (cmd_add 0 1 huge_id None (initial []))"

definition after_failed_add :: world where
  "after_failed_add = snd (cmd_add 1000 1001 (js ''2'') None down_example)"

definition once_stale :: world where
  "once_stale = snd (cmd_add 2000 2001 (js ''2'') None after_failed_add)"

text \<open>
  The tokens of a bulk input that pass the filter, trimmed, and the input that consists of
  a list of tokens (\<^verbatim>\<open>Array.prototype.join(',')\<close>).
\<close>

fun join_comma :: "js_string list \<Rightarrow> js_string" where
  "join_comma [] = []"
| "join_comma [t] = t"
| "join_comma (t # u # ts) = t @ 44 # join_comma (u # ts)"

definition valid_tokens :: "js_string \<Rightarrow> js_string list" where
  "valid_tokens userIds = filter is_digits (map trim (split_comma userIds))"

section \<open>Facts about the numbers\<close>

lemma to_double_small: "0 \<le> n \<Longrightarrow> n < 2 ^ 53 \<Longrightarrow> to_double n = Number n"
  by (simp add: to_double_def Let_def upt_conv_Cons)

section \<open>Facts about the arrays\<close>

lemma indexOf_ge: "indexOf xs x \<ge> - 1"
  by (induction xs) (auto simp: Let_def)

lemma indexOf_absent: "(indexOf xs x = - 1) = (x \<notin> set xs)"
proof (induction xs)
  case Nil show ?case by simp
next
  case (Cons y ys)
  have "indexOf ys x \<ge> - 1" by (rule indexOf_ge)
  with Cons show ?case by (auto simp: Let_def)
qed

lemma indexOf_present: "x \<in> set xs \<Longrightarrow> indexOf xs x = int (length (takeWhile (\<lambda>y. y \<noteq> x) xs))"
  by (induction xs) (auto simp: Let_def indexOf_absent)

lemma splice_one: "n < length xs \<Longrightarrow> array_splice xs (int n) 1 = take n xs @ drop (Suc n) xs"
  by (simp add: array_splice_def Let_def min_def max_def nat_add_distrib)

lemma remove1_split: "x \<in> set xs \<Longrightarrow>
  remove1 x xs = takeWhile (\<lambda>y. y \<noteq> x) xs @ tl (dropWhile (\<lambda>y. y \<noteq> x) xs)"
  by (induction xs) auto

lemma take_drop_first: "x \<in> set xs \<Longrightarrow>
  take (length (takeWhile (\<lambda>y. y \<noteq> x) xs)) xs @ drop (Suc (length (takeWhile (\<lambda>y. y \<noteq> x) xs))) xs
   = remove1 x xs"
  by (induction xs) auto

lemma splice_indexOf: "x \<in> set xs \<Longrightarrow> array_splice xs (indexOf xs x) 1 = remove1 x xs"
proof -
  assume h: "x \<in> set xs"
  have "length (takeWhile (\<lambda>y. y \<noteq> x) xs) < length xs"
    using h by (induction xs) auto
  then show ?thesis using h by (simp add: indexOf_present splice_one take_drop_first)
qed

section \<open>Facts about the store and the cache\<close>

lemma set_whitelist_simps [simp]:
  "calls (set_whitelist a xs w) = calls w"
  "faults (set_whitelist a xs w) = faults w"
  "remote_doc (set_whitelist a xs w) = remote_doc w"
  "whitelistCache (set_whitelist a xs w) = whitelistCache w"
  "lastFetch (set_whitelist a xs w) = lastFetch w"
  "next_addr (set_whitelist a xs w) = next_addr w"
  "get_whitelist a (set_whitelist a xs w) = xs"
  "sha (heap (set_whitelist a xs w) b) = sha (heap w b)"
  by (simp_all add: set_whitelist_def get_whitelist_def)

lemma getContent_calls: "calls (snd (getContent w)) = calls w @ [GetContent]"
  by (simp add: getContent_def Let_def split: list.splits option.splits)

lemma getContent_keeps:
  "whitelistCache (snd (getContent w)) = whitelistCache w"
  "lastFetch (snd (getContent w)) = lastFetch w"
  "heap (snd (getContent w)) = heap w"
  "next_addr (snd (getContent w)) = next_addr w"
  "remote_doc (snd (getContent w)) = remote_doc w"
  by (simp_all add: getContent_def Let_def split: list.splits option.splits)

lemma getContent_result:
  "fst (getContent w) = Inr (d, s) \<Longrightarrow> d = remote_doc w \<and> s = Rev (remote_doc w)"
  by (auto simp: getContent_def Let_def split: list.splits option.splits)

lemma fetch_hit:
  "whitelistCache w = Some a \<Longrightarrow> now - lastFetch w < CACHE_DURATION \<Longrightarrow>
   fetchWhitelist now w = (Inr a, w)"
  by (simp add: fetchWhitelist_def)

lemma fetch_miss:
  "miss now w \<Longrightarrow> fetchWhitelist now w =
     (case getContent w of
              (Inl e, w1) \<Rightarrow> (Inl (Error ''Failed to fetch whitelist from GitHub''), w1)
            | (Inr (wl, s), w1) \<Rightarrow>
                (let a = next_addr w1
                 in (Inr a, w1\<lparr>heap := (heap w1)(a := \<lparr>data = wl, sha = s\<rparr>),
                                next_addr := Suc a,
                                whitelistCache := Some a,
                                lastFetch := now\<rparr>)))"
  by (auto simp: miss_def fetchWhitelist_def)

lemma fetch_miss_calls:
  "miss now w \<Longrightarrow> calls (snd (fetchWhitelist now w)) = calls w @ [GetContent]"
  using getContent_calls [of w]
  by (auto simp: fetch_miss Let_def split: prod.splits sum.splits)

lemma fetch_miss_ok:
  "miss now w \<Longrightarrow> fetchWhitelist now w = (Inr b, w') \<Longrightarrow>
   b = next_addr w \<and> whitelistCache w' = Some b \<and> lastFetch w' = now \<and>
   heap w' = (heap w)(b := \<lparr>data = remote_doc w, sha = Rev (remote_doc w)\<rparr>) \<and>
   next_addr w' = Suc b \<and> remote_doc w' = remote_doc w"
  using getContent_keeps [of w] getContent_result [of w]
  by (auto simp: fetch_miss Let_def split: prod.splits sum.splits)

lemma fetch_miss_fail:
  "miss now w \<Longrightarrow> fetchWhitelist now w = (Inl e, w') \<Longrightarrow>
   e = Error ''Failed to fetch whitelist from GitHub'' \<and> w' = snd (getContent w)"
  by (auto simp: fetch_miss Let_def split: prod.splits sum.splits)

lemma fetch_cases: "miss now w \<or> (\<exists>a. whitelistCache w = Some a \<and> now - lastFetch w < CACHE_DURATION)"
  by (cases "whitelistCache w") (auto simp: miss_def)

lemma fetch_commits: "commits (snd (fetchWhitelist now w)) = commits w"
  using fetch_cases [of now w] fetch_miss_calls [of now w]
  by (auto simp: commits_def fetch_hit)

lemma fetch_remote: "remote_doc (snd (fetchWhitelist now w)) = remote_doc w"
  using getContent_keeps [of w]
  by (auto simp: fetchWhitelist_def Let_def split: prod.splits sum.splits)

lemma fetch_error: "fst (fetchWhitelist now w) = Inl e \<Longrightarrow> e = Error ''Failed to fetch whitelist from GitHub''"
  by (auto simp: fetchWhitelist_def Let_def split: prod.splits sum.splits if_splits)

lemma update_error: "fst (updateWhitelist now a m w) = Inl e \<Longrightarrow> e = Error ''Failed to update whitelist on GitHub''"
  by (auto simp: updateWhitelist_def Let_def split: prod.splits sum.splits)

lemma commit_calls: "calls (snd (createOrUpdateFileContents m d s w)) = calls w @ [CreateOrUpdate m d s]"
  by (simp add: createOrUpdateFileContents_def Let_def split: list.splits option.splits)

lemma update_ok:
  "updateWhitelist now a m w = (Inr r, w') \<Longrightarrow> whitelistCache w' = None"
  by (auto simp: updateWhitelist_def Let_def split: prod.splits sum.splits)

lemma update_commits:
  "commits (snd (updateWhitelist now a m w)) = commits w \<or>
   (\<exists>c. commits (snd (updateWhitelist now a m w)) = commits w @ [c])"
proof (cases "fetchWhitelist now w")
  case (Pair r w1)
  have c1: "commits w1 = commits w" using fetch_commits [of now w] Pair by simp
  show ?thesis
  proof (cases r)
    case (Inl e)
    then show ?thesis using Pair c1 by (simp add: updateWhitelist_def)
  next
    case (Inr c)
    obtain q w2 where q: "createOrUpdateFileContents m (JSON_stringify (data (heap w1 a))) (sha (heap w1 c)) w1 = (q, w2)"
      by (cases "createOrUpdateFileContents m (JSON_stringify (data (heap w1 a))) (sha (heap w1 c)) w1")
    have "calls w2 = calls w1 @ [CreateOrUpdate m (JSON_stringify (data (heap w1 a))) (sha (heap w1 c))]"
      using commit_calls [of m "JSON_stringify (data (heap w1 a))" "sha (heap w1 c)" w1] q by simp
    then have "commits w2 = commits w @ [CreateOrUpdate m (JSON_stringify (data (heap w1 a))) (sha (heap w1 c))]"
      using c1 by (simp add: commits_def)
    then show ?thesis using Pair Inr q
      by (cases q) (auto simp: updateWhitelist_def commits_def)
  qed
qed

lemma ttl_example_eval:
  "whitelistCache ttl_example = Some 0" "lastFetch ttl_example = 0"
  "next_addr ttl_example = Suc 0" "calls ttl_example = [GetContent]"
  "faults ttl_example = []" "remote_doc ttl_example = doc [1]"
  by (simp_all add: ttl_example_def initial_def fetchWhitelist_def getContent_def Let_def)

lemma ttl_heap0: "heap ttl_example 0 = \<lparr>data = doc [1], sha = Rev (doc [1])\<rparr>"
  by (simp add: ttl_example_def initial_def fetchWhitelist_def getContent_def Let_def)

lemma upd_example: "fst (updateWhitelist 1000 0 (MsgCleared 0) ttl_example) = Inr True"
  by (simp add: updateWhitelist_def fetchWhitelist_def createOrUpdateFileContents_def
      ttl_example_eval ttl_heap0 JSON_stringify_def doc_def CACHE_DURATION_def Let_def)

lemma collector_none:
  "(createMessageCollector (clear_filter u) 30000 msgs = None) = (\<not> list_ex (is_confirmation u) msgs)"
  by (auto simp: createMessageCollector_def clear_filter_def is_confirmation_def find_None_iff list_ex_iff)

lemma clear_example:
  "fst (clear_collect 0 1 (initial [10, 20])) = WhitelistCleared 2"
  "whitelist (remote_doc (snd (clear_collect 0 1 (initial [10, 20])))) = []"
  "calls (snd (clear_collect 0 1 (initial [10, 20])))
     = [GetContent, CreateOrUpdate (MsgCleared 2) (doc []) (Rev (doc [10, 20]))]"
  by (simp_all add: clear_collect_def updateWhitelist_def fetchWhitelist_def getContent_def
      createOrUpdateFileContents_def set_whitelist_def get_whitelist_def initial_def doc_def
      JSON_stringify_def CACHE_DURATION_def Let_def)

lemma missing_eval:
  "miss 0 missing_example" "fst (getContent missing_example) = Inl NotFound"
  "fst (fetchWhitelist 0 missing_example) = Inl (Error ''Failed to fetch whitelist from GitHub'')"
  by (simp_all add: miss_def missing_example_def initial_def getContent_def fetchWhitelist_def)

lemma stale_eval:
  "fetchWhitelist 1000 stale_example = (Inr 0, stale_example)"
  "fst (createOrUpdateFileContents (MsgCleared 1) (JSON_stringify (data (heap stale_example 0)))
      (sha (heap stale_example 0)) stale_example) = Inl RevisionConflict"
  by (simp_all add: stale_example_def initial_def getContent_def fetchWhitelist_def
      createOrUpdateFileContents_def doc_def JSON_stringify_def CACHE_DURATION_def Let_def)

section \<open>Facts about the handlers\<close>

lemma includes_set [simp]: "array_includes xs x = (x \<in> set xs)"
  by (simp add: array_includes_def)

lemma bulk_add_loop_fold:
  "bulk_add_loop ids (wl, sk, ap) =
     (case foldl spec_BulkAdd_step (wl, ap, sk) ids of (wl', ap', sk') \<Rightarrow> (wl', sk', ap'))"
  by (induction ids arbitrary: wl sk ap) (simp_all add: spec_BulkAdd_step_def spec_Add_def)

lemma bulk_add_loop_shape:
  "\<exists>new s. bulk_add_loop ids (wl, sk, ap) = (wl @ new, sk @ s, ap @ new)
     \<and> distinct new \<and> set new \<inter> set wl = {} \<and> set new \<union> set s = set ids
     \<and> set s \<subseteq> set wl \<union> set new"
proof (induction ids arbitrary: wl sk ap)
  case Nil
  show ?case by simp
next
  case (Cons i ids)
  show ?case
  proof (cases "i \<in> set wl")
    case True
    from Cons [of wl "sk @ [i]" ap] obtain new s where
      h: "bulk_add_loop ids (wl, sk @ [i], ap) = (wl @ new, (sk @ [i]) @ s, ap @ new)"
         "distinct new" "set new \<inter> set wl = {}" "set new \<union> set s = set ids"
         "set s \<subseteq> set wl \<union> set new"
      by blast
    have "bulk_add_loop (i # ids) (wl, sk, ap) = (wl @ new, sk @ (i # s), ap @ new)"
      using True h(1) by simp
    moreover have "set new \<union> set (i # s) = set (i # ids)" using h(4) by auto
    moreover have "set (i # s) \<subseteq> set wl \<union> set new" using h(5) True by auto
    ultimately show ?thesis using h(2,3) by blast
  next
    case False
    from Cons [of "wl @ [i]" sk "ap @ [i]"] obtain new s where
      h: "bulk_add_loop ids (wl @ [i], sk, ap @ [i]) = ((wl @ [i]) @ new, sk @ s, (ap @ [i]) @ new)"
         "distinct new" "set new \<inter> set (wl @ [i]) = {}" "set new \<union> set s = set ids"
         "set s \<subseteq> set (wl @ [i]) \<union> set new"
      by blast
    have "bulk_add_loop (i # ids) (wl, sk, ap) = (wl @ (i # new), sk @ s, ap @ (i # new))"
      using False h(1) by simp
    moreover have "distinct (i # new)" using h(2,3) by auto
    moreover have "set (i # new) \<inter> set wl = {}" using h(3) False by auto
    moreover have "set (i # new) \<union> set s = set (i # ids)" using h(4) by auto
    moreover have "set s \<subseteq> set wl \<union> set (i # new)" using h(5) by auto
    ultimately show ?thesis by blast
  qed
qed

lemma update_commits_le:
  "length (commits (snd (updateWhitelist t a m v))) \<le> Suc (length (commits v))"
  using update_commits [of t a m v] by auto

lemma set_whitelist_commits [simp]: "commits (set_whitelist a xs v) = commits v"
  by (simp add: commits_def)

lemma cmd_bulk_add_commits:
  "length (commits (snd (cmd_bulk_add t1 t2 s r w))) \<le> Suc (length (commits w))"
proof (cases "length (parse_ids s) = 0")
  case True
  then show ?thesis by (simp add: cmd_bulk_add_def)
next
  case False
  obtain q w1 where f: "fetchWhitelist t1 w = (q, w1)" by (cases "fetchWhitelist t1 w")
  have c1: "commits w1 = commits w" using fetch_commits [of t1 w] f by simp
  show ?thesis
  proof (cases q)
    case (Inl e)
    then show ?thesis using False f c1 by (simp add: cmd_bulk_add_def)
  next
    case (Inr a)
    obtain wl al nw where l: "bulk_add_loop (parse_ids s) (get_whitelist a w1, [], []) = (wl, al, nw)"
      by (cases "bulk_add_loop (parse_ids s) (get_whitelist a w1, [], [])") auto
    show ?thesis
    proof (cases "nw = []")
      case True
      then show ?thesis using False f Inr l c1 by (simp add: cmd_bulk_add_def)
    next
      case nonempty: False
      have "length (commits (snd (updateWhitelist t2 a
               (MsgBulkAdded (length nw) (reason_or r ''Bulk add - No reason provided''))
               (set_whitelist a wl w1)))) \<le> Suc (length (commits w))"
        using update_commits_le [of t2 a _ "set_whitelist a wl w1"] c1 by simp
      then show ?thesis using False f Inr l nonempty
        by (auto simp: cmd_bulk_add_def Let_def split: prod.splits sum.splits)
    qed
  qed
qed

lemma count_remove1: "i \<in> set xs \<Longrightarrow> count_list (remove1 i xs) i + 1 = count_list xs i"
  by (induction xs) auto

lemma cmd_remove_present:
  assumes "is_digits userId" "fetchWhitelist t1 w = (Inr a, w1)"
    "parseInt userId \<in> set (get_whitelist a w1)"
  shows "cmd_remove t1 t2 userId r w =
       (case updateWhitelist t2 a (MsgRemoved userId (reason_or r ''No reason provided''))
               (set_whitelist a (remove1 (parseInt userId) (get_whitelist a w1)) w1) of
          (Inl e, w3) \<Rightarrow> (ErrorReply (message_of e), w3)
        | (Inr u, w3) \<Rightarrow> (UserRemoved userId (reason_or r ''No reason provided''), w3))"
  using assms by (simp add: cmd_remove_def Let_def indexOf_absent splice_indexOf)

lemma cmd_remove_absent:
  assumes "is_digits userId" "fetchWhitelist t1 w = (Inr a, w1)"
    "parseInt userId \<notin> set (get_whitelist a w1)"
  shows "cmd_remove t1 t2 userId r w = (NotInWhitelist userId, w1)"
  using assms by (simp add: cmd_remove_def Let_def indexOf_absent)

lemma fetch_keeps: "fetchWhitelist t w = (q, w1) \<Longrightarrow> commits w1 = commits w \<and> remote_doc w1 = remote_doc w"
  using fetch_commits [of t w] fetch_remote [of t w] by simp

lemma add_noop:
  assumes "cmd_add t1 t2 u r w = (out, w')" "applied_count out = Some 0"
  shows "out = AlreadyWhitelisted u \<and> commits w' = commits w \<and> remote_doc w' = remote_doc w"
proof -
  obtain q w1 where f: "fetchWhitelist t1 w = (q, w1)" by (cases "fetchWhitelist t1 w")
  note k = fetch_keeps [OF f]
  show ?thesis using assms f k
    by (auto simp: cmd_add_def Let_def split: if_splits prod.splits sum.splits)
qed

lemma remove_noop:
  assumes "cmd_remove t1 t2 u r w = (out, w')" "applied_count out = Some 0"
  shows "out = NotInWhitelist u \<and> commits w' = commits w \<and> remote_doc w' = remote_doc w"
proof -
  obtain q w1 where f: "fetchWhitelist t1 w = (q, w1)" by (cases "fetchWhitelist t1 w")
  note k = fetch_keeps [OF f]
  show ?thesis using assms f k
    by (auto simp: cmd_remove_def Let_def split: if_splits prod.splits sum.splits)
qed

lemma bulk_add_none:
  "bulk_add_loop ids (wl, sk, ap) = (wl', sk', ap') \<Longrightarrow> length ap' = length ap \<Longrightarrow>
   sk' = sk @ ids \<and> wl' = wl"
proof (induction ids arbitrary: wl sk ap)
  case Nil
  then show ?case by simp
next
  case (Cons i ids)
  show ?case
  proof (cases "i \<in> set wl")
    case True
    then show ?thesis using Cons.IH [of wl "sk @ [i]" ap] Cons.prems by simp
  next
    case False
    obtain new s where "bulk_add_loop ids (wl @ [i], sk, ap @ [i]) = ((wl @ [i]) @ new, sk @ s, (ap @ [i]) @ new)"
      using bulk_add_loop_shape [of ids "wl @ [i]" sk "ap @ [i]"] by blast
    then have "ap' = (ap @ [i]) @ new" using Cons.prems(1) False by simp
    then show ?thesis using Cons.prems(2) by simp
  qed
qed

lemma bulk_remove_grows:
  "bulk_remove_loop ids (wl, ni, rm) = (wl', ni', rm') \<Longrightarrow> length rm \<le> length rm'"
proof (induction ids arbitrary: wl ni rm)
  case Nil
  then show ?case by simp
next
  case (Cons i ids)
  show ?case
  proof (cases "indexOf wl i = - 1")
    case True
    then show ?thesis using Cons.IH [of wl "ni @ [i]" rm] Cons.prems by simp
  next
    case False
    then show ?thesis
      using Cons.IH [of "array_splice wl (indexOf wl i) 1" ni "rm @ [i]"] Cons.prems by simp
  qed
qed

lemma bulk_remove_none:
  "bulk_remove_loop ids (wl, ni, rm) = (wl', ni', rm') \<Longrightarrow> length rm' = length rm \<Longrightarrow>
   ni' = ni @ ids \<and> wl' = wl"
proof (induction ids arbitrary: wl ni rm)
  case Nil
  then show ?case by simp
next
  case (Cons i ids)
  show ?case
  proof (cases "indexOf wl i = - 1")
    case True
    then show ?thesis using Cons.IH [of wl "ni @ [i]" rm] Cons.prems by simp
  next
    case False
    then have "length (rm @ [i]) \<le> length rm'"
      using bulk_remove_grows [of ids "array_splice wl (indexOf wl i) 1" ni "rm @ [i]" wl' ni' rm']
        Cons.prems(1) by simp
    then show ?thesis using Cons.prems(2) by simp
  qed
qed

lemma bulk_add_noop:
  assumes "cmd_bulk_add t1 t2 s r w = (out, w')" "applied_count out = Some 0"
  shows "skipped_ids out = parse_ids s \<and> commits w' = commits w \<and> remote_doc w' = remote_doc w"
proof -
  obtain q w1 where f: "fetchWhitelist t1 w = (q, w1)" by (cases "fetchWhitelist t1 w")
  note k = fetch_keeps [OF f]
  show ?thesis
  proof (cases q)
    case (Inl e)
    then show ?thesis using assms f
      by (auto simp: cmd_bulk_add_def Let_def split: if_splits)
  next
    case (Inr a)
    obtain wl al nw where l: "bulk_add_loop (parse_ids s) (get_whitelist a w1, [], []) = (wl, al, nw)"
      by (cases "bulk_add_loop (parse_ids s) (get_whitelist a w1, [], [])") auto
    have n: "nw = [] \<Longrightarrow> al = parse_ids s" using bulk_add_none [OF l] by simp
    show ?thesis using assms f Inr l k n
      by (auto simp: cmd_bulk_add_def Let_def split: if_splits prod.splits sum.splits)
  qed
qed

lemma bulk_remove_noop:
  assumes "cmd_bulk_remove t1 t2 s r w = (out, w')" "applied_count out = Some 0"
  shows "skipped_ids out = parse_ids s \<and> commits w' = commits w \<and> remote_doc w' = remote_doc w"
proof -
  obtain q w1 where f: "fetchWhitelist t1 w = (q, w1)" by (cases "fetchWhitelist t1 w")
  note k = fetch_keeps [OF f]
  show ?thesis
  proof (cases q)
    case (Inl e)
    then show ?thesis using assms f
      by (auto simp: cmd_bulk_remove_def Let_def split: if_splits)
  next
    case (Inr a)
    obtain wl ni rm where l: "bulk_remove_loop (parse_ids s) (get_whitelist a w1, [], []) = (wl, ni, rm)"
      by (cases "bulk_remove_loop (parse_ids s) (get_whitelist a w1, [], [])") auto
    have n: "rm = [] \<Longrightarrow> ni = parse_ids s" using bulk_remove_none [OF l] by simp
    show ?thesis using assms f Inr l k n
      by (auto simp: cmd_bulk_remove_def Let_def split: if_splits prod.splits sum.splits)
  qed
qed

lemmas eval_defs = updateWhitelist_def fetchWhitelist_def getContent_def
  createOrUpdateFileContents_def set_whitelist_def get_whitelist_def initial_def doc_def
  JSON_stringify_def commits_def CACHE_DURATION_def Let_def

lemma digits_examples:
  "is_digits (js ''2'')" "is_digits (js ''5'')" "is_digits (js ''9'')"
  "parseInt (js ''2'') = Number 2" "parseInt (js ''5'') = Number 5" "parseInt (js ''9'') = Number 9"
  "parse_ids (js ''2, 3'') = map Number [2, 3]" "parse_ids (js ''5'') = map Number [5]"
  by (simp_all add: parse_ids_def js_def trim_def is_ws_def is_digits_def is_digit_def parseInt_def decimal_value_def to_double_small)

lemma clear_empty_example:
  "fst (handle True 0 1 (Clear (js ''7'') [good_confirm]) (initial [])) = WhitelistCleared 0"
  "commits (snd (handle True 0 1 (Clear (js ''7'') [good_confirm]) (initial [])))
     = [CreateOrUpdate (MsgCleared 0) (doc []) (Rev (doc []))]"
  by (simp_all add: cmd_clear_def clear_collect_def createMessageCollector_def clear_filter_def
      good_confirm_def eval_defs)

lemma parse_example: "parse_ids (js ''2,4,4,5'') = map Number [2, 4, 4, 5]"
  by (simp add: parse_ids_def js_def trim_def is_ws_def is_digits_def is_digit_def parseInt_def decimal_value_def to_double_small)

lemma loop_example: "bulk_add_loop (map Number [2, 4, 4, 5]) (map Number [1, 2, 3], [], [])
       = (map Number [1, 2, 3, 4, 5], map Number [2, 4], map Number [4, 5])"
  by simp

lemma bulk_add_example:
  "fst (cmd_bulk_add 0 1 (js ''2,4,4,5'') None (initial [1, 2, 3])) = BulkAddResults (map Number [4, 5]) (map Number [2, 4])"
  "whitelist (remote_doc (snd (cmd_bulk_add 0 1 (js ''2,4,4,5'') None (initial [1, 2, 3]))))
     = map Number [1, 2, 3, 4, 5]"
  "length (commits (snd (cmd_bulk_add 0 1 (js ''2,4,4,5'') None (initial [1, 2, 3])))) = 1"
  by (simp_all add: cmd_bulk_add_def parse_example updateWhitelist_def fetchWhitelist_def
      getContent_def createOrUpdateFileContents_def set_whitelist_def get_whitelist_def
      initial_def doc_def JSON_stringify_def commits_def CACHE_DURATION_def Let_def)

lemma noop_examples:
  "fst (handle True 0 1 (Add (js ''2'') None) (initial [1, 2, 3])) = AlreadyWhitelisted (js ''2'')"
  "fst (handle True 0 1 (Remove (js ''9'') None) (initial [1, 2, 3])) = NotInWhitelist (js ''9'')"
  "fst (handle True 0 1 (BulkAdd (js ''2, 3'') None) (initial [1, 2, 3])) = BulkAddResults [] (map Number [2, 3])"
  "fst (handle True 0 1 (BulkRemove (js ''5'') None) (initial [1, 2, 3])) = BulkRemoveResults [] (map Number [5])"
  by (simp_all add: cmd_add_def cmd_remove_def cmd_bulk_add_def cmd_bulk_remove_def
      digits_examples eval_defs)


lemma dup_eval:
  "fetchWhitelist 0 (initial [5, 7, 5]) = (Inr 0, dup_example)"
  "get_whitelist 0 dup_example = map Number [5, 7, 5]"
proof -
  have "fst (fetchWhitelist 0 (initial [5, 7, 5])) = Inr 0" by (simp add: eval_defs)
  then show "fetchWhitelist 0 (initial [5, 7, 5]) = (Inr 0, dup_example)"
    by (simp add: dup_example_def prod_eq_iff)
  show "get_whitelist 0 dup_example = map Number [5, 7, 5]" by (simp add: dup_example_def eval_defs)
qed

lemma round_eval:
  "is_digits (js ''9007199254740993'')"
  "parseInt (js ''9007199254740993'') = Number 9007199254740992"
  "fetchWhitelist 0 (initial [9007199254740992]) = (Inr 0, round_example)"
  "get_whitelist 0 round_example = map Number [9007199254740992]"
proof -
  show "is_digits (js ''9007199254740993'')"
    by (simp add: js_def is_digits_def is_digit_def)
  show "parseInt (js ''9007199254740993'') = Number 9007199254740992"
    by (simp add: parseInt_def decimal_value_def js_def to_double_def Let_def upt_conv_Cons)
  have "fst (fetchWhitelist 0 (initial [9007199254740992])) = Inr 0" by (simp add: eval_defs)
  then show "fetchWhitelist 0 (initial [9007199254740992]) = (Inr 0, round_example)"
    by (simp add: round_example_def prod_eq_iff)
  show "get_whitelist 0 round_example = map Number [9007199254740992]"
    by (simp add: round_example_def eval_defs)
qed

lemma round_remove_example:
  "fst (cmd_remove 0 1 (js ''9007199254740993'') None (initial [9007199254740992]))
     = UserRemoved (js ''9007199254740993'') (js ''No reason provided'')"
  "whitelist (remote_doc (snd (cmd_remove 0 1 (js ''9007199254740993'') None
      (initial [9007199254740992])))) = []"
  by (simp_all add: cmd_remove_def round_eval(1,2) reason_or_def array_splice_def eval_defs)

lemma remove_example:
  "fst (cmd_remove 0 1 (js ''5'') None (initial [5, 7, 5]))
     = UserRemoved (js ''5'') (js ''No reason provided'')"
  "whitelist (remote_doc (snd (cmd_remove 0 1 (js ''5'') None (initial [5, 7, 5])))) = map Number [7, 5]"
  by (simp_all add: cmd_remove_def digits_examples reason_or_def array_splice_def eval_defs)

lemma set_whitelist_same: "set_whitelist a (get_whitelist a w) w = w"
  by (simp add: set_whitelist_def get_whitelist_def)

lemma bulk_add_all_present:
  "set ids \<subseteq> set wl \<Longrightarrow> bulk_add_loop ids (wl, sk, ap) = (wl, sk @ ids, ap)"
  by (induction ids arbitrary: sk) simp_all

lemma bulk_remove_none_present:
  "set ids \<inter> set wl = {} \<Longrightarrow> bulk_remove_loop ids (wl, ni, rm) = (wl, ni @ ids, rm)"
  by (induction ids arbitrary: ni) (simp_all add: indexOf_absent)

lemma cmd_add_present:
  assumes "is_digits u" "fetchWhitelist t1 w = (Inr a, w1)" "parseInt u \<in> set (get_whitelist a w1)"
  shows "cmd_add t1 t2 u r w = (AlreadyWhitelisted u, w1)"
  using assms by (simp add: cmd_add_def)

lemma cmd_bulk_add_present:
  assumes "parse_ids s \<noteq> []" "fetchWhitelist t1 w = (Inr a, w1)"
    "set (parse_ids s) \<subseteq> set (get_whitelist a w1)"
  shows "cmd_bulk_add t1 t2 s r w = (BulkAddResults [] (parse_ids s), w1)"
  using assms by (simp add: cmd_bulk_add_def bulk_add_all_present set_whitelist_same)

lemma cmd_bulk_remove_absent:
  assumes "parse_ids s \<noteq> []" "fetchWhitelist t1 w = (Inr a, w1)"
    "set (parse_ids s) \<inter> set (get_whitelist a w1) = {}"
  shows "cmd_bulk_remove t1 t2 s r w = (BulkRemoveResults [] (parse_ids s), w1)"
  using assms by (simp add: cmd_bulk_remove_def bulk_remove_none_present set_whitelist_same)

lemma handle_noop:
  "handle isAdmin t1 t2 c w = (out, w') \<and> applied_count out = Some 0 \<and> \<not> is_clear c
   \<longrightarrow> skipped_ids out = requested_ids c \<and> commits w' = commits w
       \<and> remote_doc w' = remote_doc w"
proof (cases isAdmin)
  case False
  then show ?thesis by auto
next
  case True
  show ?thesis
  proof (cases c)
    case (Add u r)
    then show ?thesis using True add_noop [of t1 t2 u r w out w'] by auto
  next
    case (Remove u r)
    then show ?thesis using True remove_noop [of t1 t2 u r w out w'] by auto
  next
    case (Check u)
    then show ?thesis using True
      by (auto simp: cmd_check_def split: if_splits prod.splits sum.splits)
  next
    case (BulkAdd s r)
    then show ?thesis using True bulk_add_noop [of t1 t2 s r w out w'] by auto
  next
    case (BulkRemove s r)
    then show ?thesis using True bulk_remove_noop [of t1 t2 s r w out w'] by auto
  next
    case (Clear u ms)
    then show ?thesis by simp
  qed
qed

lemma listed_eval:
  "fetchWhitelist 0 (initial [1, 2, 3]) = (Inr 0, listed_example)"
  "get_whitelist 0 listed_example = map Number [1, 2, 3]"
  "commits listed_example = []"
proof -
  have "fst (fetchWhitelist 0 (initial [1, 2, 3])) = Inr 0" by (simp add: eval_defs)
  then show "fetchWhitelist 0 (initial [1, 2, 3]) = (Inr 0, listed_example)"
    by (simp add: listed_example_def prod_eq_iff)
  show "get_whitelist 0 listed_example = map Number [1, 2, 3]" by (simp add: listed_example_def eval_defs)
  show "commits listed_example = []" by (simp add: listed_example_def eval_defs)
qed

lemma decimal_nines:
  "foldl (\<lambda>acc c. 10 * acc + int (c - 48)) a (replicate n 57) = (a + 1) * 10 ^ n - 1"
  by (induction n arbitrary: a) (simp_all add: algebra_simps)

lemma huge_eval:
  "is_digits huge_id" "parseInt huge_id = Infinity"
proof -
  show "is_digits huge_id"
    by (simp add: huge_id_def is_digits_def is_digit_def list_all_iff)
  have "decimal_value huge_id = 10 ^ 309 - 1"
    by (simp add: decimal_value_def huge_id_def decimal_nines)
  moreover have "(2::int) ^ 1024 \<le> 10 ^ 309 - 1" by simp
  ultimately show "parseInt huge_id = Infinity" by (simp add: parseInt_def to_double_def)
qed

lemma huge_add_eval:
  "fst (cmd_add 0 1 huge_id None (initial [])) = UserAdded huge_id (js ''No reason provided'')"
  "whitelist (remote_doc once_huge) = [Null]"
  "fst (cmd_add 2 3 huge_id None (once_huge\<lparr>whitelistCache := None\<rparr>))
     = UserAdded huge_id (js ''No reason provided'')"
  "whitelist (remote_doc (snd (cmd_add 2 3 huge_id None (once_huge\<lparr>whitelistCache := None\<rparr>))))
     = [Null, Null]"
  by (simp_all add: once_huge_def cmd_add_def huge_eval reason_or_def eval_defs)

lemma stale_add_eval:
  "whitelist (remote_doc after_failed_add) = map Number [1]"
  "fst (cmd_add 2000 2001 (js ''2'') None after_failed_add) = AlreadyWhitelisted (js ''2'')"
  "whitelist (remote_doc once_stale) = map Number [1]"
  "fst (cmd_add 3000 3001 (js ''2'') None (once_stale\<lparr>whitelistCache := None\<rparr>))
     = UserAdded (js ''2'') (js ''No reason provided'')"
  "whitelist (remote_doc (snd (cmd_add 3000 3001 (js ''2'') None
      (once_stale\<lparr>whitelistCache := None\<rparr>)))) = map Number [1, 2]"
  by (simp_all add: once_stale_def after_failed_add_def down_example_def cmd_add_def
      digits_examples reason_or_def eval_defs)

section \<open>Facts about the id syntax\<close>

lemma split_no_comma: "44 \<notin> set t \<Longrightarrow> split_comma t = [t]"
  by (induction t) auto

lemma split_append: "44 \<notin> set t \<Longrightarrow> split_comma (t @ 44 # rest) = t # split_comma rest"
  by (induction t) auto

lemma split_join:
  "ts \<noteq> [] \<Longrightarrow> list_all (\<lambda>t. 44 \<notin> set t) ts \<Longrightarrow> split_comma (join_comma ts) = ts"
  by (induction ts rule: join_comma.induct) (simp_all add: split_no_comma split_append)

lemma digit_not_ws: "is_digit c \<Longrightarrow> \<not> is_ws c"
  by (auto simp: is_digit_def is_ws_def)

lemma digits_no_comma: "is_digits t \<Longrightarrow> 44 \<notin> set t"
  by (auto simp: is_digits_def is_digit_def list_all_iff)

lemma dropWhile_id: "t \<noteq> [] \<Longrightarrow> \<not> P (hd t) \<Longrightarrow> dropWhile P t = t"
  by (cases t) auto

lemma digits_trim: "is_digits t \<Longrightarrow> trim t = t"
proof -
  assume d: "is_digits t"
  then have ne: "t \<noteq> []" and all: "list_all is_digit t" by (simp_all add: is_digits_def)
  have "is_digit (hd t)" using ne all by (cases t) auto
  then have a: "dropWhile is_ws t = t" using ne digit_not_ws dropWhile_id by blast
  have "is_digit (last t)" using ne all by (simp add: list_all_iff)
  then have "\<not> is_ws (hd (rev t))" using ne digit_not_ws by (simp add: hd_rev)
  then have "dropWhile is_ws (rev t) = rev t" using ne dropWhile_id [of "rev t" is_ws] by simp
  then show ?thesis using a by (simp add: trim_def)
qed

lemma valid_tokens_digits: "list_all is_digits (valid_tokens s)"
  by (simp add: valid_tokens_def list_all_iff)

lemma parse_valid: "parse_ids s = map parseInt (valid_tokens s)"
  by (simp add: parse_ids_def valid_tokens_def)

lemma valid_join: "valid_tokens (join_comma (valid_tokens s)) = valid_tokens s"
proof (cases "valid_tokens s = []")
  case True
  then show ?thesis by (simp add: valid_tokens_def trim_def is_digits_def)
next
  case False
  have d: "list_all is_digits (valid_tokens s)" by (rule valid_tokens_digits)
  then have "list_all (\<lambda>t. 44 \<notin> set t) (valid_tokens s)"
    using digits_no_comma by (auto simp: list_all_iff)
  then have sj: "split_comma (join_comma (valid_tokens s)) = valid_tokens s"
    using False by (rule split_join [rotated])
  have "map trim (valid_tokens s) = valid_tokens s"
    using d digits_trim by (auto simp: list_all_iff intro: map_idI)
  moreover have "filter is_digits (valid_tokens s) = valid_tokens s"
    using d by (auto simp: list_all_iff)
  ultimately have "filter is_digits (map trim (split_comma (join_comma (valid_tokens s)))) = valid_tokens s"
    using sj by simp
  then show ?thesis by (simp add: valid_tokens_def)
qed

lemma parse_join: "parse_ids (join_comma (valid_tokens s)) = parse_ids s"
  by (simp add: parse_valid valid_join)

lemma bulk_add_by_ids: "parse_ids s = parse_ids s' \<Longrightarrow> cmd_bulk_add t1 t2 s r w = cmd_bulk_add t1 t2 s' r w"
  by (simp add: cmd_bulk_add_def)

lemma bulk_remove_by_ids: "parse_ids s = parse_ids s' \<Longrightarrow> cmd_bulk_remove t1 t2 s r w = cmd_bulk_remove t1 t2 s' r w"
  by (simp add: cmd_bulk_remove_def)

lemma bulk_add_outcome:
  "fst (cmd_bulk_add t1 t2 s r w) \<noteq> InvalidUserId \<and>
   ((fst (cmd_bulk_add t1 t2 s r w) = NoValidUserIds) = (valid_tokens s = []))"
  by (auto simp: cmd_bulk_add_def parse_valid Let_def split: prod.splits sum.splits)

lemma bulk_remove_outcome:
  "fst (cmd_bulk_remove t1 t2 s r w) \<noteq> InvalidUserId \<and>
   ((fst (cmd_bulk_remove t1 t2 s r w) = NoValidUserIds) = (valid_tokens s = []))"
  by (auto simp: cmd_bulk_remove_def parse_valid Let_def split: prod.splits sum.splits)

lemma token_examples:
  "valid_tokens (js '' 12, x ,,34,5 6'') = [js ''12'', js ''34'']"
  "parse_ids (js '' 12, x ,,34,5 6'') = map Number [12, 34]"
  "valid_tokens (js ''x, ,1 2'') = []"
  "\<not> is_digits (js ''12a'')"
  "\<not> is_digits (js '' 12'')"
  by (simp_all add: valid_tokens_def parse_ids_def js_def trim_def is_ws_def is_digits_def
      is_digit_def parseInt_def decimal_value_def to_double_small)

section \<open>The cache: time to live and invalidation\<close>

text \<open>
  Claim C3, as the code has it. The age of an entry is counted from the read that fetched
  it, not from the last read: a read finds the entry while \<open>now - lastFetch\<close> is below
  60000 ms and returns it with no store call and no change of state; so does a read less
  than 60000 ms after a read that fetched. A read that finds no entry, or one as old as
  60000 ms, calls the store once; when the call succeeds the result becomes the entry,
  with \<open>lastFetch = now\<close>, and when it fails the slot is left as it was.
\<close>

theorem fetchWhitelist_ttl:
  "(whitelistCache w = Some a \<and> now - lastFetch w < CACHE_DURATION
      \<longrightarrow> fetchWhitelist now w = (Inr a, w))
   \<and> (miss t1 v \<and> fetchWhitelist t1 v = (Inr b, v1) \<and> t2 - t1 < CACHE_DURATION
      \<longrightarrow> fetchWhitelist t2 v1 = (Inr b, v1))
   \<and> (miss t u
      \<longrightarrow> calls (snd (fetchWhitelist t u)) = calls u @ [GetContent]
          \<and> (case fetchWhitelist t u of
               (Inr c, u') \<Rightarrow> whitelistCache u' = Some c \<and> lastFetch u' = t
                   \<and> heap u' c = \<lparr>data = remote_doc u, sha = Rev (remote_doc u)\<rparr>
             | (Inl e, u') \<Rightarrow> whitelistCache u' = whitelistCache u
                   \<and> lastFetch u' = lastFetch u))"
proof -
  have p1: "whitelistCache w = Some a \<and> now - lastFetch w < CACHE_DURATION
      \<longrightarrow> fetchWhitelist now w = (Inr a, w)"
    by (simp add: fetch_hit)
  have p2: "miss t1 v \<and> fetchWhitelist t1 v = (Inr b, v1) \<and> t2 - t1 < CACHE_DURATION
      \<longrightarrow> fetchWhitelist t2 v1 = (Inr b, v1)"
    using fetch_miss_ok [of t1 v b v1] by (auto simp: fetch_hit)
  have p3: "miss t u \<longrightarrow> calls (snd (fetchWhitelist t u)) = calls u @ [GetContent]"
    by (simp add: fetch_miss_calls)
  have p4: "miss t u \<longrightarrow> (case fetchWhitelist t u of
               (Inr c, u') \<Rightarrow> whitelistCache u' = Some c \<and> lastFetch u' = t
                   \<and> heap u' c = \<lparr>data = remote_doc u, sha = Rev (remote_doc u)\<rparr>
             | (Inl e, u') \<Rightarrow> whitelistCache u' = whitelistCache u
                   \<and> lastFetch u' = lastFetch u)"
  proof
    assume m: "miss t u"
    obtain r u' where r: "fetchWhitelist t u = (r, u')" by (cases "fetchWhitelist t u")
    show "case fetchWhitelist t u of
               (Inr c, u') \<Rightarrow> whitelistCache u' = Some c \<and> lastFetch u' = t
                   \<and> heap u' c = \<lparr>data = remote_doc u, sha = Rev (remote_doc u)\<rparr>
             | (Inl e, u') \<Rightarrow> whitelistCache u' = whitelistCache u
                   \<and> lastFetch u' = lastFetch u"
    proof (cases r)
      case (Inl e)
      then show ?thesis
        using r fetch_miss_fail [OF m, of e u'] getContent_keeps [of u] by simp
    next
      case (Inr c)
      then show ?thesis using r fetch_miss_ok [OF m, of c u'] by simp
    qed
  qed
  have p5: "miss t u
      \<longrightarrow> calls (snd (fetchWhitelist t u)) = calls u @ [GetContent]
          \<and> (case fetchWhitelist t u of
               (Inr c, u') \<Rightarrow> whitelistCache u' = Some c \<and> lastFetch u' = t
                   \<and> heap u' c = \<lparr>data = remote_doc u, sha = Rev (remote_doc u)\<rparr>
             | (Inl e, u') \<Rightarrow> whitelistCache u' = whitelistCache u
                   \<and> lastFetch u' = lastFetch u)"
  proof
    assume m: "miss t u"
    show "calls (snd (fetchWhitelist t u)) = calls u @ [GetContent]
          \<and> (case fetchWhitelist t u of
               (Inr c, u') \<Rightarrow> whitelistCache u' = Some c \<and> lastFetch u' = t
                   \<and> heap u' c = \<lparr>data = remote_doc u, sha = Rev (remote_doc u)\<rparr>
             | (Inl e, u') \<Rightarrow> whitelistCache u' = whitelistCache u
                   \<and> lastFetch u' = lastFetch u)"
      using p3 [rule_format, OF m] p4 [rule_format, OF m] by (rule conjI)
  qed
  show ?thesis by (rule conjI [OF p1 conjI [OF p2 p5]])
qed

theorem fetchWhitelist_ttl_witness:
  "whitelistCache ttl_example = Some 0 \<and> 50000 - lastFetch ttl_example < CACHE_DURATION
   \<and> fetchWhitelist 50000 ttl_example = (Inr 0, ttl_example)
   \<and> miss 0 (initial [1]) \<and> fetchWhitelist 0 (initial [1]) = (Inr 0, ttl_example)
   \<and> (59999::int) - 0 < CACHE_DURATION
   \<and> fetchWhitelist 59999 ttl_example = (Inr 0, ttl_example)
   \<and> miss 60000 ttl_example
   \<and> calls (snd (fetchWhitelist 60000 ttl_example)) = [GetContent, GetContent]"
proof -
  have h1: "whitelistCache ttl_example = Some 0 \<and> 50000 - lastFetch ttl_example < CACHE_DURATION"
    by (simp add: ttl_example_eval CACHE_DURATION_def)
  have h2: "miss 0 (initial [1])" by (simp add: miss_def initial_def)
  have "fst (fetchWhitelist 0 (initial [1])) = Inr 0"
    by (simp add: initial_def fetchWhitelist_def getContent_def Let_def)
  then have h3: "fetchWhitelist 0 (initial [1]) = (Inr 0, ttl_example)"
    by (simp add: ttl_example_def prod_eq_iff)
  have h4: "(59999::int) - 0 < CACHE_DURATION" by (simp add: CACHE_DURATION_def)
  have h5: "miss 60000 ttl_example" by (simp add: miss_def ttl_example_eval CACHE_DURATION_def)
  show ?thesis
    using fetchWhitelist_ttl [of ttl_example 0 50000 0 "initial [1]" 0 ttl_example 59999 60000 ttl_example]
      h1 h2 h3 h4 h5
    by (simp add: ttl_example_eval)
qed

text \<open>
  Claim C3 as stated fails: after a fetch at time 0, the reads at 50000 and at 70000 are
  20000 ms apart with no invalidation between them; the first is served from the cache,
  the second calls the store and returns a new entry.
\<close>

theorem fetchWhitelist_refetch_between_close_reads:
  "(70000::int) - 50000 < CACHE_DURATION
   \<and> fetchWhitelist 50000 ttl_example = (Inr 0, ttl_example)
   \<and> fst (fetchWhitelist 70000 ttl_example) = Inr 1
   \<and> calls (snd (fetchWhitelist 70000 ttl_example)) = calls ttl_example @ [GetContent]"
  by (simp add: ttl_example_eval fetchWhitelist_def getContent_def Let_def CACHE_DURATION_def)

text \<open>
  Claim C4: when \<open>updateWhitelist\<close> succeeds the cache slot is null, and a read at any
  time after it calls the store.
\<close>

theorem updateWhitelist_invalidates:
  "updateWhitelist now a m w = (Inr r, w') \<Longrightarrow>
   whitelistCache w' = None \<and> (\<forall>t. calls (snd (fetchWhitelist t w')) = calls w' @ [GetContent])"
proof -
  assume h: "updateWhitelist now a m w = (Inr r, w')"
  have n: "whitelistCache w' = None" using h by (rule update_ok)
  then have "\<And>t. miss t w'" by (simp add: miss_def)
  then show ?thesis using n fetch_miss_calls by blast
qed

theorem updateWhitelist_invalidates_witness:
  "fst (updateWhitelist 1000 0 (MsgCleared 0) ttl_example) = Inr True
   \<and> whitelistCache (snd (updateWhitelist 1000 0 (MsgCleared 0) ttl_example)) = None
   \<and> calls (snd (fetchWhitelist 1001 (snd (updateWhitelist 1000 0 (MsgCleared 0) ttl_example))))
       = calls (snd (updateWhitelist 1000 0 (MsgCleared 0) ttl_example)) @ [GetContent]"
proof -
  have e: "updateWhitelist 1000 0 (MsgCleared 0) ttl_example
     = (Inr True, snd (updateWhitelist 1000 0 (MsgCleared 0) ttl_example))"
    using upd_example by (simp add: prod_eq_iff)
  show ?thesis using updateWhitelist_invalidates [OF e] upd_example by simp
qed

section \<open>Failures of the store\<close>

text \<open>
  Claim C5, as the code has it. No failure of the store is swallowed, but none reaches the
  caller unchanged: a failed fetch makes \<open>fetchWhitelist\<close> throw the fixed error
  "Failed to fetch whitelist from GitHub", and a failure of the fetch or of the commit
  inside \<open>updateWhitelist\<close> makes it throw the fixed error "Failed to update whitelist on
  GitHub", whatever the kind of the failure was.
\<close>

theorem store_failures_replaced:
  "(miss now w \<and> fst (getContent w) = Inl x
      \<longrightarrow> fst (fetchWhitelist now w) = Inl (Error ''Failed to fetch whitelist from GitHub''))
   \<and> (fst (fetchWhitelist t v) = Inl e
      \<longrightarrow> e = Error ''Failed to fetch whitelist from GitHub''
          \<and> fst (updateWhitelist t a m v) = Inl (Error ''Failed to update whitelist on GitHub''))
   \<and> (fetchWhitelist t' u = (Inr c, u1)
       \<and> fst (createOrUpdateFileContents m' (JSON_stringify (data (heap u1 a'))) (sha (heap u1 c)) u1) = Inl y
      \<longrightarrow> fst (updateWhitelist t' a' m' u) = Inl (Error ''Failed to update whitelist on GitHub''))"
proof -
  have p1: "miss now w \<and> fst (getContent w) = Inl x
      \<longrightarrow> fst (fetchWhitelist now w) = Inl (Error ''Failed to fetch whitelist from GitHub'')"
    by (auto simp: fetch_miss split: prod.splits sum.splits)
  have p2: "fst (fetchWhitelist t v) = Inl e
      \<longrightarrow> e = Error ''Failed to fetch whitelist from GitHub''
          \<and> fst (updateWhitelist t a m v) = Inl (Error ''Failed to update whitelist on GitHub'')"
    using fetch_error [of t v e] by (auto simp: updateWhitelist_def split: prod.splits sum.splits)
  have p3: "fetchWhitelist t' u = (Inr c, u1)
       \<and> fst (createOrUpdateFileContents m' (JSON_stringify (data (heap u1 a'))) (sha (heap u1 c)) u1) = Inl y
      \<longrightarrow> fst (updateWhitelist t' a' m' u) = Inl (Error ''Failed to update whitelist on GitHub'')"
    by (auto simp: updateWhitelist_def split: prod.splits sum.splits)
  show ?thesis using p1 p2 p3 by blast
qed

theorem store_failures_replaced_witness:
  "miss 0 missing_example \<and> fst (getContent missing_example) = Inl NotFound
   \<and> fst (fetchWhitelist 0 missing_example) = Inl (Error ''Failed to fetch whitelist from GitHub'')
   \<and> fst (updateWhitelist 0 0 (MsgCleared 1) missing_example)
       = Inl (Error ''Failed to update whitelist on GitHub'')
   \<and> fetchWhitelist 1000 stale_example = (Inr 0, stale_example)
   \<and> fst (createOrUpdateFileContents (MsgCleared 1) (JSON_stringify (data (heap stale_example 0)))
        (sha (heap stale_example 0)) stale_example) = Inl RevisionConflict
   \<and> fst (updateWhitelist 1000 0 (MsgCleared 1) stale_example)
       = Inl (Error ''Failed to update whitelist on GitHub'')"
  using store_failures_replaced [of 0 missing_example NotFound 0 missing_example
      "Error ''Failed to fetch whitelist from GitHub''" 0 "MsgCleared 1"
      1000 stale_example 0 stale_example "MsgCleared 1" 0 RevisionConflict]
    missing_eval stale_eval
  by simp

text \<open>
  Claim C5 as stated fails: a commit refused for a stale token and a commit that meets an
  unavailable store give the caller the same error, and \<open>add\<close> shows the same failure
  message for both.
\<close>

theorem conflict_not_distinguishable:
  "fst (createOrUpdateFileContents (MsgCleared 1) (JSON_stringify (data (heap stale_example 0)))
      (sha (heap stale_example 0)) stale_example) = Inl RevisionConflict
   \<and> fst (createOrUpdateFileContents (MsgCleared 1) (JSON_stringify (data (heap down_example 0)))
      (sha (heap down_example 0)) down_example) = Inl RemoteUnavailable
   \<and> fst (updateWhitelist 1000 0 (MsgCleared 1) stale_example)
     = Inl (Error ''Failed to update whitelist on GitHub'')
   \<and> fst (updateWhitelist 1000 0 (MsgCleared 1) down_example)
     = Inl (Error ''Failed to update whitelist on GitHub'')
   \<and> fst (cmd_add 1000 1001 (js ''2'') None stale_example)
     = ErrorReply ''Failed to update whitelist on GitHub''
   \<and> fst (cmd_add 1000 1001 (js ''2'') None down_example)
     = ErrorReply ''Failed to update whitelist on GitHub''"
  by (simp add: stale_example_def down_example_def cmd_add_def digits_examples eval_defs)

section \<open>The confirmation of clear\<close>

text \<open>
  Claim C7: with no message of the same user with the content \<open>CONFIRM\<close> arriving less
  than 30000 ms after the prompt, \<open>clear\<close> is cancelled and the state is untouched (no
  store call, no mutation); with such a message the callback of the collector runs; so
  any change of the state is preceded by a confirmation.
\<close>

theorem clear_needs_confirmation:
  "(\<not> list_ex (is_confirmation u) msgs \<longrightarrow> cmd_clear t1 t2 u msgs w = (ClearCancelled, w))
   \<and> (list_ex (is_confirmation u) ms \<longrightarrow> cmd_clear t1 t2 u ms w = clear_collect t1 t2 w)
   \<and> (snd (cmd_clear t1 t2 u' ms' w') \<noteq> w' \<longrightarrow> list_ex (is_confirmation u') ms')"
proof -
  have a: "\<And>u msgs w. \<not> list_ex (is_confirmation u) msgs \<Longrightarrow> cmd_clear t1 t2 u msgs w = (ClearCancelled, w)"
    by (simp add: cmd_clear_def collector_none [symmetric])
  have b: "list_ex (is_confirmation u) ms \<Longrightarrow> cmd_clear t1 t2 u ms w = clear_collect t1 t2 w"
    using collector_none [of u ms] by (auto simp: cmd_clear_def split: option.splits)
  have c: "snd (cmd_clear t1 t2 u' ms' w') \<noteq> w' \<longrightarrow> list_ex (is_confirmation u') ms'"
    using a [of u' ms' w'] by (metis snd_conv)
  show ?thesis using a b c by blast
qed

theorem clear_needs_confirmation_witness:
  "\<not> list_ex (is_confirmation (js ''7'')) [other_confirm, late_confirm]
   \<and> cmd_clear 0 1 (js ''7'') [other_confirm, late_confirm] (initial [10, 20])
       = (ClearCancelled, initial [10, 20])
   \<and> list_ex (is_confirmation (js ''7'')) [other_confirm, good_confirm]
   \<and> fst (cmd_clear 0 1 (js ''7'') [other_confirm, good_confirm] (initial [10, 20]))
       = WhitelistCleared 2
   \<and> whitelist (remote_doc (snd (cmd_clear 0 1 (js ''7'') [other_confirm, good_confirm]
        (initial [10, 20])))) = []
   \<and> snd (cmd_clear 0 1 (js ''7'') [other_confirm, good_confirm] (initial [10, 20]))
       \<noteq> initial [10, 20]"
proof -
  have h1: "\<not> list_ex (is_confirmation (js ''7'')) [other_confirm, late_confirm]"
    by (simp add: is_confirmation_def other_confirm_def late_confirm_def js_def)
  have h2: "list_ex (is_confirmation (js ''7'')) [other_confirm, good_confirm]"
    by (simp add: is_confirmation_def other_confirm_def good_confirm_def js_def)
  have c0: "calls (initial [10, 20]) = []" by (simp add: initial_def)
  have "calls (snd (clear_collect 0 1 (initial [10, 20]))) \<noteq> calls (initial [10, 20])"
    by (simp add: clear_example c0)
  then have h3: "snd (clear_collect 0 1 (initial [10, 20])) \<noteq> initial [10, 20]"
    by auto
  show ?thesis
    using clear_needs_confirmation [of "js ''7''" "[other_confirm, late_confirm]" 0 1 "initial [10, 20]"
        "[other_confirm, good_confirm]" "js ''7''" "[other_confirm, good_confirm]" "initial [10, 20]"]
      h1 h2 h3 clear_example
    by simp
qed

section \<open>The mutations\<close>

text \<open>
  Claim C1, as the code has it. For \<open>add\<close>, \<open>remove\<close>, \<open>bulk-add\<close> and
  \<open>bulk-remove\<close>, a request that ends with zero applied changes reports every id it asked
  for as skipped, makes no call to the commit operation and leaves the file in the store as
  it was. These are the requests of the claim: \<open>add\<close> of an id that is in the list read,
  \<open>remove\<close> of an id that is not, \<open>bulk-add\<close> of ids that are all in it,
  \<open>bulk-remove\<close> of ids none of which is; each ends after the read, in the state the read
  left. (The confirmed \<open>clear\<close> is not among them.)
\<close>

theorem no_op_requests_skip_commit:
  "(handle isAdmin t1 t2 c w = (out, w') \<and> applied_count out = Some 0 \<and> \<not> is_clear c
    \<longrightarrow> skipped_ids out = requested_ids c \<and> commits w' = commits w
        \<and> remote_doc w' = remote_doc w)
   \<and> (is_digits u1 \<and> fetchWhitelist t1 v1 = (Inr a1, v1')
       \<and> parseInt u1 \<in> set (get_whitelist a1 v1')
    \<longrightarrow> cmd_add t1 t2 u1 r1 v1 = (AlreadyWhitelisted u1, v1') \<and> commits v1' = commits v1)
   \<and> (is_digits u2 \<and> fetchWhitelist t1 v2 = (Inr a2, v2')
       \<and> parseInt u2 \<notin> set (get_whitelist a2 v2')
    \<longrightarrow> cmd_remove t1 t2 u2 r2 v2 = (NotInWhitelist u2, v2') \<and> commits v2' = commits v2)
   \<and> (parse_ids s3 \<noteq> [] \<and> fetchWhitelist t1 v3 = (Inr a3, v3')
       \<and> set (parse_ids s3) \<subseteq> set (get_whitelist a3 v3')
    \<longrightarrow> cmd_bulk_add t1 t2 s3 r3 v3 = (BulkAddResults [] (parse_ids s3), v3')
        \<and> commits v3' = commits v3)
   \<and> (parse_ids s4 \<noteq> [] \<and> fetchWhitelist t1 v4 = (Inr a4, v4')
       \<and> set (parse_ids s4) \<inter> set (get_whitelist a4 v4') = {}
    \<longrightarrow> cmd_bulk_remove t1 t2 s4 r4 v4 = (BulkRemoveResults [] (parse_ids s4), v4')
        \<and> commits v4' = commits v4)"
proof -
  note p1 = handle_noop [of isAdmin t1 t2 c w out w']
  have p2: "is_digits u1 \<and> fetchWhitelist t1 v1 = (Inr a1, v1')
       \<and> parseInt u1 \<in> set (get_whitelist a1 v1')
    \<longrightarrow> cmd_add t1 t2 u1 r1 v1 = (AlreadyWhitelisted u1, v1') \<and> commits v1' = commits v1"
    using cmd_add_present [of u1 t1 v1 a1 v1' t2 r1] fetch_keeps [of t1 v1 "Inr a1" v1'] by blast
  have p3: "is_digits u2 \<and> fetchWhitelist t1 v2 = (Inr a2, v2')
       \<and> parseInt u2 \<notin> set (get_whitelist a2 v2')
    \<longrightarrow> cmd_remove t1 t2 u2 r2 v2 = (NotInWhitelist u2, v2') \<and> commits v2' = commits v2"
    using cmd_remove_absent [of u2 t1 v2 a2 v2' t2 r2] fetch_keeps [of t1 v2 "Inr a2" v2'] by blast
  have p4: "parse_ids s3 \<noteq> [] \<and> fetchWhitelist t1 v3 = (Inr a3, v3')
       \<and> set (parse_ids s3) \<subseteq> set (get_whitelist a3 v3')
    \<longrightarrow> cmd_bulk_add t1 t2 s3 r3 v3 = (BulkAddResults [] (parse_ids s3), v3')
        \<and> commits v3' = commits v3"
    using cmd_bulk_add_present [of s3 t1 v3 a3 v3' t2 r3] fetch_keeps [of t1 v3 "Inr a3" v3'] by blast
  have p5: "parse_ids s4 \<noteq> [] \<and> fetchWhitelist t1 v4 = (Inr a4, v4')
       \<and> set (parse_ids s4) \<inter> set (get_whitelist a4 v4') = {}
    \<longrightarrow> cmd_bulk_remove t1 t2 s4 r4 v4 = (BulkRemoveResults [] (parse_ids s4), v4')
        \<and> commits v4' = commits v4"
    using cmd_bulk_remove_absent [of s4 t1 v4 a4 v4' t2 r4] fetch_keeps [of t1 v4 "Inr a4" v4'] by blast
  show ?thesis by (rule conjI [OF p1 conjI [OF p2 conjI [OF p3 conjI [OF p4 p5]]]])
qed

theorem no_op_requests_skip_commit_witness:
  "handle True 0 1 (BulkAdd (js ''2, 3'') None) (initial [1, 2, 3])
     = (BulkAddResults [] (map Number [2, 3]), listed_example)
   \<and> applied_count (BulkAddResults [] (map Number [2, 3])) = Some 0
   \<and> \<not> is_clear (BulkAdd (js ''2, 3'') None)
   \<and> skipped_ids (BulkAddResults [] (map Number [2, 3])) = requested_ids (BulkAdd (js ''2, 3'') None)
   \<and> commits listed_example = commits (initial [1, 2, 3])
   \<and> is_digits (js ''2'') \<and> fetchWhitelist 0 (initial [1, 2, 3]) = (Inr 0, listed_example)
   \<and> parseInt (js ''2'') \<in> set (get_whitelist 0 listed_example)
   \<and> cmd_add 0 1 (js ''2'') None (initial [1, 2, 3]) = (AlreadyWhitelisted (js ''2''), listed_example)
   \<and> is_digits (js ''9'') \<and> parseInt (js ''9'') \<notin> set (get_whitelist 0 listed_example)
   \<and> cmd_remove 0 1 (js ''9'') None (initial [1, 2, 3]) = (NotInWhitelist (js ''9''), listed_example)
   \<and> parse_ids (js ''2, 3'') \<noteq> []
   \<and> set (parse_ids (js ''2, 3'')) \<subseteq> set (get_whitelist 0 listed_example)
   \<and> parse_ids (js ''5'') \<noteq> []
   \<and> set (parse_ids (js ''5'')) \<inter> set (get_whitelist 0 listed_example) = {}
   \<and> cmd_bulk_remove 0 1 (js ''5'') None (initial [1, 2, 3])
       = (BulkRemoveResults [] (map Number [5]), listed_example)"
proof -
  have h2: "is_digits (js ''2'') \<and> fetchWhitelist 0 (initial [1, 2, 3]) = (Inr 0, listed_example)
       \<and> parseInt (js ''2'') \<in> set (get_whitelist 0 listed_example)"
    by (simp add: digits_examples listed_eval)
  have h3: "is_digits (js ''9'') \<and> fetchWhitelist 0 (initial [1, 2, 3]) = (Inr 0, listed_example)
       \<and> parseInt (js ''9'') \<notin> set (get_whitelist 0 listed_example)"
    by (simp add: digits_examples listed_eval)
  have h4: "parse_ids (js ''2, 3'') \<noteq> [] \<and> fetchWhitelist 0 (initial [1, 2, 3]) = (Inr 0, listed_example)
       \<and> set (parse_ids (js ''2, 3'')) \<subseteq> set (get_whitelist 0 listed_example)"
    by (simp add: digits_examples listed_eval)
  have h5: "parse_ids (js ''5'') \<noteq> [] \<and> fetchWhitelist 0 (initial [1, 2, 3]) = (Inr 0, listed_example)
       \<and> set (parse_ids (js ''5'')) \<inter> set (get_whitelist 0 listed_example) = {}"
    by (simp add: digits_examples listed_eval)
  note T = no_op_requests_skip_commit [of True 0 1 "BulkAdd (js ''2, 3'') None" "initial [1, 2, 3]"
      "BulkAddResults [] (map Number [2, 3])" listed_example
      "js ''2''" "initial [1, 2, 3]" 0 listed_example None
      "js ''9''" "initial [1, 2, 3]" 0 listed_example None
      "js ''2, 3''" "initial [1, 2, 3]" 0 listed_example None
      "js ''5''" "initial [1, 2, 3]" 0 listed_example None]
  have c2: "cmd_add 0 1 (js ''2'') None (initial [1, 2, 3]) = (AlreadyWhitelisted (js ''2''), listed_example)"
    using T h2 by blast
  have c3: "cmd_remove 0 1 (js ''9'') None (initial [1, 2, 3]) = (NotInWhitelist (js ''9''), listed_example)"
    using T h3 by blast
  have c4: "cmd_bulk_add 0 1 (js ''2, 3'') None (initial [1, 2, 3])
      = (BulkAddResults [] (parse_ids (js ''2, 3'')), listed_example)"
    using T h4 by blast
  have c5: "cmd_bulk_remove 0 1 (js ''5'') None (initial [1, 2, 3])
      = (BulkRemoveResults [] (parse_ids (js ''5'')), listed_example)"
    using T h5 by blast
  have h1: "handle True 0 1 (BulkAdd (js ''2, 3'') None) (initial [1, 2, 3])
     = (BulkAddResults [] (map Number [2, 3]), listed_example)"
    using c4 by (simp add: digits_examples)
  have a1: "applied_count (BulkAddResults [] (map Number [2, 3])) = Some 0 \<and> \<not> is_clear (BulkAdd (js ''2, 3'') None)"
    by simp
  have c1: "skipped_ids (BulkAddResults [] (map Number [2, 3])) = requested_ids (BulkAdd (js ''2, 3'') None)
      \<and> commits listed_example = commits (initial [1, 2, 3])"
    using T h1 a1 by blast
  have c5': "cmd_bulk_remove 0 1 (js ''5'') None (initial [1, 2, 3])
       = (BulkRemoveResults [] (map Number [5]), listed_example)"
    using c5 by (simp add: digits_examples)
  show ?thesis using h1 a1 c1 h2 c2 h3 c3 h4 h5 c5' by blast
qed

text \<open>
  Claim C1 as stated fails for \<open>clear\<close>: confirmed on an empty list, it applies zero
  changes and still commits, with the message for a count of 0.
\<close>

theorem clear_of_empty_list_commits:
  "applied_count (fst (handle True 0 1 (Clear (js ''7'') [good_confirm]) (initial []))) = Some 0
   \<and> commits (initial []) = []
   \<and> commits (snd (handle True 0 1 (Clear (js ''7'') [good_confirm]) (initial [])))
       = [CreateOrUpdate (MsgCleared 0) (doc []) (Rev (doc []))]"
proof -
  have "commits (initial []) = []" by (simp add: commits_def initial_def)
  then show ?thesis by (simp del: handle.simps add: clear_empty_example)
qed

text \<open>
  Claim C2 against the code. The list \<open>[1]\<close> is in the store and in a fresh cache entry;
  \<open>add 2\<close> runs while the store refuses the commit. The command fails, the entry stays
  in the cache slot and its list is now \<open>[1, 2]\<close>, the store still holds \<open>[1]\<close>, and a
  \<open>check 2\<close> within the TTL answers that 2 is whitelisted.
\<close>

theorem failed_commit_leaves_mutated_cache:
  "fst (cmd_add 1000 1001 (js ''2'') None down_example)
     = ErrorReply ''Failed to update whitelist on GitHub''
   \<and> whitelistCache (snd (cmd_add 1000 1001 (js ''2'') None down_example)) = Some 0
   \<and> get_whitelist 0 down_example = map Number [1]
   \<and> get_whitelist 0 (snd (cmd_add 1000 1001 (js ''2'') None down_example)) = map Number [1, 2]
   \<and> whitelist (remote_doc (snd (cmd_add 1000 1001 (js ''2'') None down_example))) = map Number [1]
   \<and> fst (cmd_check 2000 (js ''2'') (snd (cmd_add 1000 1001 (js ''2'') None down_example)))
       = CheckResult (js ''2'') True"
  by (simp add: cmd_add_def cmd_check_def down_example_def digits_examples eval_defs)

text \<open>
  Claim C6: the loop of \<open>bulk-add\<close> is Add applied to each id in the given order, on the
  list as the earlier ids left it; the new list is the old one followed by the added ids,
  which are distinct and were absent; the handler makes at most one commit; and on
  \<open>[1, 2, 3]\<close> the batch \<open>2,4,4,5\<close> adds \<open>[4, 5]\<close>, skips \<open>[2, 4]\<close> and leaves
  \<open>[1, 2, 3, 4, 5]\<close> in the store after one commit.
\<close>

theorem bulk_add_in_order:
  "bulk_add_loop ids (wl, [], []) =
     (case spec_BulkAdd wl ids of (wl', applied, skipped) \<Rightarrow> (wl', skipped, applied))
   \<and> (case bulk_add_loop ids (wl, [], []) of
        (wl', alreadyWhitelisted, newlyAdded) \<Rightarrow>
          wl' = wl @ newlyAdded \<and> distinct newlyAdded \<and> set newlyAdded \<inter> set wl = {}
          \<and> set newlyAdded \<union> set alreadyWhitelisted = set ids
          \<and> set alreadyWhitelisted \<subseteq> set wl \<union> set newlyAdded)
   \<and> length (commits (snd (cmd_bulk_add t1 t2 s r w))) \<le> Suc (length (commits w))
   \<and> bulk_add_loop (map Number [2, 4, 4, 5]) (map Number [1, 2, 3], [], [])
       = (map Number [1, 2, 3, 4, 5], map Number [2, 4], map Number [4, 5])
   \<and> fst (cmd_bulk_add 0 1 (js ''2,4,4,5'') None (initial [1, 2, 3])) = BulkAddResults (map Number [4, 5]) (map Number [2, 4])
   \<and> whitelist (remote_doc (snd (cmd_bulk_add 0 1 (js ''2,4,4,5'') None (initial [1, 2, 3]))))
       = map Number [1, 2, 3, 4, 5]
   \<and> length (commits (snd (cmd_bulk_add 0 1 (js ''2,4,4,5'') None (initial [1, 2, 3])))) = 1"
proof -
  have p1: "bulk_add_loop ids (wl, [], []) =
     (case spec_BulkAdd wl ids of (wl', applied, skipped) \<Rightarrow> (wl', skipped, applied))"
    by (simp add: bulk_add_loop_fold spec_BulkAdd_def)
  obtain new sk where h: "bulk_add_loop ids (wl, [], []) = (wl @ new, [] @ sk, [] @ new)"
    "distinct new" "set new \<inter> set wl = {}" "set new \<union> set sk = set ids"
    "set sk \<subseteq> set wl \<union> set new"
    using bulk_add_loop_shape [of ids wl "[]" "[]"] by blast
  have p2: "case bulk_add_loop ids (wl, [], []) of
        (wl', alreadyWhitelisted, newlyAdded) \<Rightarrow>
          wl' = wl @ newlyAdded \<and> distinct newlyAdded \<and> set newlyAdded \<inter> set wl = {}
          \<and> set newlyAdded \<union> set alreadyWhitelisted = set ids
          \<and> set alreadyWhitelisted \<subseteq> set wl \<union> set newlyAdded"
    using h by simp
  note p3 = cmd_bulk_add_commits [of t1 t2 s r w]
  show ?thesis
    by (rule conjI [OF p1 conjI [OF p2 conjI [OF p3 conjI [OF loop_example
          conjI [OF bulk_add_example(1) conjI [OF bulk_add_example(2) bulk_add_example(3)]]]]]])
qed

text \<open>
  Claim C8: \<open>remove\<close> of an id that is in the list takes out its first occurrence and
  no other (the list that goes to the commit is the part before the first occurrence
  followed by all that comes after it, so the id occurs once less) and reports the id as
  removed when the commit succeeds; for an id that is not in the list it reports that and
  changes nothing. The id is the number that the digits are read as, so \<open>remove\<close> of
  \<open>9007199254740993\<close> takes \<open>9007199254740992\<close> out of a list that holds it.
\<close>

theorem remove_first_occurrence:
  "(is_digits userId \<and> fetchWhitelist t1 w = (Inr a, w1)
      \<and> parseInt userId \<in> set (get_whitelist a w1) \<longrightarrow>
      cmd_remove t1 t2 userId r w =
       (case updateWhitelist t2 a (MsgRemoved userId (reason_or r ''No reason provided''))
               (set_whitelist a (remove1 (parseInt userId) (get_whitelist a w1)) w1) of
          (Inl e, w3) \<Rightarrow> (ErrorReply (message_of e), w3)
        | (Inr u, w3) \<Rightarrow> (UserRemoved userId (reason_or r ''No reason provided''), w3)))
   \<and> (i \<in> set xs \<longrightarrow>
        array_splice xs (indexOf xs i) 1 = remove1 i xs
        \<and> remove1 i xs = takeWhile (\<lambda>y. y \<noteq> i) xs @ tl (dropWhile (\<lambda>y. y \<noteq> i) xs)
        \<and> count_list (remove1 i xs) i + 1 = count_list xs i)
   \<and> (is_digits uid \<and> fetchWhitelist t v = (Inr b, v1)
      \<and> parseInt uid \<notin> set (get_whitelist b v1) \<longrightarrow>
      cmd_remove t t' uid r' v = (NotInWhitelist uid, v1) \<and> commits v1 = commits v
      \<and> remote_doc v1 = remote_doc v)"
proof -
  have p2: "i \<in> set xs \<longrightarrow>
        array_splice xs (indexOf xs i) 1 = remove1 i xs
        \<and> remove1 i xs = takeWhile (\<lambda>y. y \<noteq> i) xs @ tl (dropWhile (\<lambda>y. y \<noteq> i) xs)
        \<and> count_list (remove1 i xs) i + 1 = count_list xs i"
    using splice_indexOf [of i xs] remove1_split [of i xs] count_remove1 [of i xs] by blast
  have p3: "is_digits uid \<and> fetchWhitelist t v = (Inr b, v1)
      \<and> parseInt uid \<notin> set (get_whitelist b v1) \<longrightarrow>
      cmd_remove t t' uid r' v = (NotInWhitelist uid, v1) \<and> commits v1 = commits v
      \<and> remote_doc v1 = remote_doc v"
    using cmd_remove_absent [of uid t v b v1 t' r'] fetch_commits [of t v] fetch_remote [of t v]
    by auto
  show ?thesis using cmd_remove_present [of userId t1 w a w1 t2 r] p2 p3 by blast
qed


theorem remove_first_occurrence_witness:
  "is_digits (js ''5'') \<and> fetchWhitelist 0 (initial [5, 7, 5]) = (Inr 0, dup_example)
   \<and> parseInt (js ''5'') \<in> set (get_whitelist 0 dup_example)
   \<and> fst (cmd_remove 0 1 (js ''5'') None (initial [5, 7, 5]))
       = UserRemoved (js ''5'') (js ''No reason provided'')
   \<and> whitelist (remote_doc (snd (cmd_remove 0 1 (js ''5'') None (initial [5, 7, 5]))))
       = map Number [7, 5]
   \<and> Number 5 \<in> set (map Number [5, 7, 5])
   \<and> array_splice (map Number [5, 7, 5]) (indexOf (map Number [5, 7, 5]) (Number 5)) 1
       = remove1 (Number 5) (map Number [5, 7, 5])
   \<and> remove1 (Number 5) (map Number [5, 7, 5]) = map Number [7, 5]
   \<and> is_digits (js ''9'') \<and> parseInt (js ''9'') \<notin> set (get_whitelist 0 dup_example)
   \<and> cmd_remove 0 1 (js ''9'') None (initial [5, 7, 5]) = (NotInWhitelist (js ''9''), dup_example)
   \<and> is_digits (js ''9007199254740993'')
   \<and> fetchWhitelist 0 (initial [9007199254740992]) = (Inr 0, round_example)
   \<and> parseInt (js ''9007199254740993'') \<in> set (get_whitelist 0 round_example)
   \<and> cmd_remove 0 1 (js ''9007199254740993'') None (initial [9007199254740992])
       = (case updateWhitelist 1 0
                 (MsgRemoved (js ''9007199254740993'') (reason_or None ''No reason provided''))
                 (set_whitelist 0 (remove1 (parseInt (js ''9007199254740993''))
                    (get_whitelist 0 round_example)) round_example) of
            (Inl e, w3) \<Rightarrow> (ErrorReply (message_of e), w3)
          | (Inr u, w3) \<Rightarrow>
              (UserRemoved (js ''9007199254740993'') (reason_or None ''No reason provided''), w3))
   \<and> fst (cmd_remove 0 1 (js ''9007199254740993'') None (initial [9007199254740992]))
       = UserRemoved (js ''9007199254740993'') (js ''No reason provided'')
   \<and> whitelist (remote_doc (snd (cmd_remove 0 1 (js ''9007199254740993'') None
        (initial [9007199254740992])))) = []"
proof -
  have h1: "is_digits (js ''5'') \<and> fetchWhitelist 0 (initial [5, 7, 5]) = (Inr 0, dup_example)
      \<and> parseInt (js ''5'') \<in> set (get_whitelist 0 dup_example)"
    by (simp add: digits_examples dup_eval)
  have h2: "Number 5 \<in> set (map Number [5, 7, 5])" by simp
  have h3: "is_digits (js ''9'') \<and> fetchWhitelist 0 (initial [5, 7, 5]) = (Inr 0, dup_example)
      \<and> parseInt (js ''9'') \<notin> set (get_whitelist 0 dup_example)"
    by (simp add: digits_examples dup_eval)
  have h4: "is_digits (js ''9007199254740993'')
      \<and> fetchWhitelist 0 (initial [9007199254740992]) = (Inr 0, round_example)
      \<and> parseInt (js ''9007199254740993'') \<in> set (get_whitelist 0 round_example)"
    by (simp add: round_eval)
  note T = remove_first_occurrence [of "js ''5''" 0 "initial [5, 7, 5]" 0 dup_example 1 None
      "Number 5" "map Number [5, 7, 5]" "js ''9''" 0 "initial [5, 7, 5]" 0 dup_example 1 None]
  note U = remove_first_occurrence [of "js ''9007199254740993''" 0 "initial [9007199254740992]"
      0 round_example 1 None "Number 5" "map Number [5, 7, 5]"
      "js ''9''" 0 "initial [5, 7, 5]" 0 dup_example 1 None]
  have c2: "array_splice (map Number [5, 7, 5]) (indexOf (map Number [5, 7, 5]) (Number 5)) 1
       = remove1 (Number 5) (map Number [5, 7, 5])"
    using T h2 by blast
  have c2': "remove1 (Number 5) (map Number [5, 7, 5]) = map Number [7, 5]" by simp
  have c3: "cmd_remove 0 1 (js ''9'') None (initial [5, 7, 5]) = (NotInWhitelist (js ''9''), dup_example)"
    using T h3 by blast
  have c4: "cmd_remove 0 1 (js ''9007199254740993'') None (initial [9007199254740992])
       = (case updateWhitelist 1 0
                 (MsgRemoved (js ''9007199254740993'') (reason_or None ''No reason provided''))
                 (set_whitelist 0 (remove1 (parseInt (js ''9007199254740993''))
                    (get_whitelist 0 round_example)) round_example) of
            (Inl e, w3) \<Rightarrow> (ErrorReply (message_of e), w3)
          | (Inr u, w3) \<Rightarrow>
              (UserRemoved (js ''9007199254740993'') (reason_or None ''No reason provided''), w3))"
    using U h4 by blast
  show ?thesis
    using h1 h2 h3 h4 c2 c2' c3 c4 remove_example round_remove_example by blast
qed

text \<open>
  Claim C9 against the code, at two inputs. An id of 309 nines is read as \<open>Infinity\<close> and
  written to the file as \<open>null\<close>: \<open>add\<close> of it on the empty list leaves \<open>[null]\<close>, and
  after the cache slot is cleared the same \<open>add\<close> is applied again and leaves
  \<open>[null, null]\<close>. And in the state that a failed commit of \<open>add 2\<close> leaves on the list
  \<open>[1]\<close>, \<open>add 2\<close> finds 2 in the cache and leaves \<open>[1]\<close> in the store, and after the
  cache slot is cleared the same \<open>add\<close> leaves \<open>[1, 2]\<close>.
\<close>

theorem add_twice_differs_from_once:
  "is_digits huge_id \<and> parseInt huge_id = Infinity
   \<and> fst (cmd_add 0 1 huge_id None (initial [])) = UserAdded huge_id (js ''No reason provided'')
   \<and> whitelist (remote_doc once_huge) = [Null]
   \<and> fst (cmd_add 2 3 huge_id None (once_huge\<lparr>whitelistCache := None\<rparr>))
       = UserAdded huge_id (js ''No reason provided'')
   \<and> whitelist (remote_doc (snd (cmd_add 2 3 huge_id None (once_huge\<lparr>whitelistCache := None\<rparr>))))
       = [Null, Null]
   \<and> whitelist (remote_doc after_failed_add) = map Number [1]
   \<and> fst (cmd_add 2000 2001 (js ''2'') None after_failed_add) = AlreadyWhitelisted (js ''2'')
   \<and> whitelist (remote_doc once_stale) = map Number [1]
   \<and> fst (cmd_add 3000 3001 (js ''2'') None (once_stale\<lparr>whitelistCache := None\<rparr>))
       = UserAdded (js ''2'') (js ''No reason provided'')
   \<and> whitelist (remote_doc (snd (cmd_add 3000 3001 (js ''2'') None
        (once_stale\<lparr>whitelistCache := None\<rparr>)))) = map Number [1, 2]"
  using huge_eval huge_add_eval stale_add_eval by blast

section \<open>The ids of a bulk command\<close>

text \<open>
  Claim C10: \<open>bulk-add\<close> and \<open>bulk-remove\<close> work on the ids of the tokens that, once
  trimmed, are strings of digits; they behave on an input as on the comma-separated list
  of its valid tokens alone, never answer with the invalid-id rejection, and answer that
  no valid id was given exactly when no token is valid, leaving the state untouched then.
  The single \<open>add\<close> and \<open>remove\<close> reject an id that is not a string of digits, untrimmed.
\<close>

theorem bulk_invalid_tokens_discarded:
  "parse_ids s = map parseInt (valid_tokens s)
   \<and> cmd_bulk_add t1 t2 s r w = cmd_bulk_add t1 t2 (join_comma (valid_tokens s)) r w
   \<and> cmd_bulk_remove t1 t2 s r w = cmd_bulk_remove t1 t2 (join_comma (valid_tokens s)) r w
   \<and> fst (cmd_bulk_add t1 t2 s r w) \<noteq> InvalidUserId
   \<and> fst (cmd_bulk_remove t1 t2 s r w) \<noteq> InvalidUserId
   \<and> (fst (cmd_bulk_add t1 t2 s r w) = NoValidUserIds) = (valid_tokens s = [])
   \<and> (fst (cmd_bulk_remove t1 t2 s r w) = NoValidUserIds) = (valid_tokens s = [])
   \<and> (valid_tokens s0 = [] \<longrightarrow>
        cmd_bulk_add t1 t2 s0 r w = (NoValidUserIds, w)
        \<and> cmd_bulk_remove t1 t2 s0 r w = (NoValidUserIds, w))
   \<and> (\<not> is_digits uid \<longrightarrow>
        cmd_add t1 t2 uid r w = (InvalidUserId, w)
        \<and> cmd_remove t1 t2 uid r w = (InvalidUserId, w))"
proof -
  note p1 = parse_valid [of s]
  have p2: "cmd_bulk_add t1 t2 s r w = cmd_bulk_add t1 t2 (join_comma (valid_tokens s)) r w"
    by (rule bulk_add_by_ids) (simp add: parse_join)
  have p3: "cmd_bulk_remove t1 t2 s r w = cmd_bulk_remove t1 t2 (join_comma (valid_tokens s)) r w"
    by (rule bulk_remove_by_ids) (simp add: parse_join)
  note a = bulk_add_outcome [of t1 t2 s r w]
  note b = bulk_remove_outcome [of t1 t2 s r w]
  have p8: "valid_tokens s0 = [] \<longrightarrow>
        cmd_bulk_add t1 t2 s0 r w = (NoValidUserIds, w)
        \<and> cmd_bulk_remove t1 t2 s0 r w = (NoValidUserIds, w)"
    by (simp add: cmd_bulk_add_def cmd_bulk_remove_def parse_valid)
  have p9: "\<not> is_digits uid \<longrightarrow>
        cmd_add t1 t2 uid r w = (InvalidUserId, w)
        \<and> cmd_remove t1 t2 uid r w = (InvalidUserId, w)"
    by (simp add: cmd_add_def cmd_remove_def)
  show ?thesis
    by (rule conjI [OF p1 conjI [OF p2 conjI [OF p3 conjI [OF a [THEN conjunct1]
         conjI [OF b [THEN conjunct1] conjI [OF a [THEN conjunct2]
         conjI [OF b [THEN conjunct2] conjI [OF p8 p9]]]]]]]])
qed


theorem bulk_invalid_tokens_discarded_witness:
  "valid_tokens (js '' 12, x ,,34,5 6'') = [js ''12'', js ''34'']
   \<and> parse_ids (js '' 12, x ,,34,5 6'') = map Number [12, 34]
   \<and> fst (cmd_bulk_add 0 1 (js '' 12, x ,,34,5 6'') None (initial [1])) \<noteq> NoValidUserIds
   \<and> valid_tokens (js ''x, ,1 2'') = []
   \<and> cmd_bulk_add 0 1 (js ''x, ,1 2'') None (initial [1]) = (NoValidUserIds, initial [1])
   \<and> cmd_bulk_remove 0 1 (js ''x, ,1 2'') None (initial [1]) = (NoValidUserIds, initial [1])
   \<and> \<not> is_digits (js '' 12'')
   \<and> cmd_add 0 1 (js '' 12'') None (initial [1]) = (InvalidUserId, initial [1])
   \<and> cmd_remove 0 1 (js '' 12'') None (initial [1]) = (InvalidUserId, initial [1])"
proof -
  note T = bulk_invalid_tokens_discarded [of "js '' 12, x ,,34,5 6''" 0 1 None "initial [1]" "js ''x, ,1 2''" "js '' 12''"]
  have k6: "(fst (cmd_bulk_add 0 1 (js '' 12, x ,,34,5 6'') None (initial [1])) = NoValidUserIds)
      = (valid_tokens (js '' 12, x ,,34,5 6'') = [])"
    using T by blast
  have a: "fst (cmd_bulk_add 0 1 (js '' 12, x ,,34,5 6'') None (initial [1])) \<noteq> NoValidUserIds"
    using k6 by (simp add: token_examples(1))
  have k8: "cmd_bulk_add 0 1 (js ''x, ,1 2'') None (initial [1]) = (NoValidUserIds, initial [1])
      \<and> cmd_bulk_remove 0 1 (js ''x, ,1 2'') None (initial [1]) = (NoValidUserIds, initial [1])"
    using T token_examples(3) by blast
  have k9: "cmd_add 0 1 (js '' 12'') None (initial [1]) = (InvalidUserId, initial [1])
      \<and> cmd_remove 0 1 (js '' 12'') None (initial [1]) = (InvalidUserId, initial [1])"
    using T token_examples(5) by blast
  show ?thesis using token_examples a k8 k9 by blast
qed

end
